theory Spec2Isabelle
  imports Main
begin

section \<open>Data model of the VirtualBox Manager window\<close>

text \<open>
  The development embeds the action layer of \<^verbatim>\<open>UIVirtualBoxManager.cpp\<close>: the enablement
  evaluator \<^verbatim>\<open>isActionEnabled\<close>, the appearance update, the slots that lock an action around
  a modal dialog, and the slots that apply a power action to every selected machine.

  Enumerations are declared in headers outside the translated file. Each one is modelled
  with the enumerators the manager names, and one further constructor that stands for
  every other enumerator. The machine states powered off and saved, which the manager
  reaches only through the classifiers of the item, are named as well.
\<close>

type_synonym QUuid = string

datatype KMachineState =
    KMachineState_PoweredOff
  | KMachineState_Saved
  | KMachineState_Running
  | KMachineState_Paused
  | KMachineState_Teleporting
  | KMachineState_LiveSnapshotting
  | KMachineState_TeleportingPausedVM
  | KMachineState_Other nat

datatype ConfigurationAccessLevel =
    ConfigurationAccessLevel_Null
  | ConfigurationAccessLevel_Other nat

datatype UIToolType =
    UIToolType_Welcome
  | UIToolType_Media
  | UIToolType_Network
  | UIToolType_Cloud
  | UIToolType_Details
  | UIToolType_Snapshots
  | UIToolType_Logs
  | UIToolType_Other nat

datatype LaunchMode =
    LaunchMode_Invalid
  | LaunchMode_Default
  | LaunchMode_Headless
  | LaunchMode_Separate

datatype (plugins only: code size) UIActionIndex =
    UIActionIndex_M_Application_S_Preferences
  | UIActionIndexST_M_File_S_ExportAppliance
  | UIActionIndexST_M_File_S_ImportAppliance
  | UIActionIndexST_M_Welcome_S_Add
  | UIActionIndexST_M_Group_S_Add
  | UIActionIndexST_M_Machine_S_Add
  | UIActionIndexST_M_Group_S_Rename
  | UIActionIndexST_M_Group_S_Remove
  | UIActionIndexST_M_Group_S_Sort
  | UIActionIndexST_M_Machine_S_Settings
  | UIActionIndexST_M_Machine_S_Clone
  | UIActionIndexST_M_Machine_S_Move
  | UIActionIndexST_M_Machine_S_ExportToOCI
  | UIActionIndexST_M_Machine_S_Remove
  | UIActionIndexST_M_Machine_S_AddGroup
  | UIActionIndexST_M_Group_M_StartOrShow
  | UIActionIndexST_M_Group_M_StartOrShow_S_StartNormal
  | UIActionIndexST_M_Group_M_StartOrShow_S_StartHeadless
  | UIActionIndexST_M_Group_M_StartOrShow_S_StartDetachable
  | UIActionIndexST_M_Machine_M_StartOrShow
  | UIActionIndexST_M_Machine_M_StartOrShow_S_StartNormal
  | UIActionIndexST_M_Machine_M_StartOrShow_S_StartHeadless
  | UIActionIndexST_M_Machine_M_StartOrShow_S_StartDetachable
  | UIActionIndexST_M_Group_S_Discard
  | UIActionIndexST_M_Machine_S_Discard
  | UIActionIndexST_M_Group_S_ShowLogDialog
  | UIActionIndexST_M_Machine_S_ShowLogDialog
  | UIActionIndexST_M_Group_T_Pause
  | UIActionIndexST_M_Machine_T_Pause
  | UIActionIndexST_M_Group_S_Reset
  | UIActionIndexST_M_Machine_S_Reset
  | UIActionIndexST_M_Group_S_Refresh
  | UIActionIndexST_M_Machine_S_Refresh
  | UIActionIndexST_M_Group_S_ShowInFileManager
  | UIActionIndexST_M_Machine_S_ShowInFileManager
  | UIActionIndexST_M_Machine_S_SortParent
  | UIActionIndexST_M_Group_S_CreateShortcut
  | UIActionIndexST_M_Machine_S_CreateShortcut
  | UIActionIndexST_M_Group_M_Close
  | UIActionIndexST_M_Machine_M_Close
  | UIActionIndexST_M_Group_M_Close_S_Detach
  | UIActionIndexST_M_Machine_M_Close_S_Detach
  | UIActionIndexST_M_Group_M_Close_S_SaveState
  | UIActionIndexST_M_Machine_M_Close_S_SaveState
  | UIActionIndexST_M_Group_M_Close_S_Shutdown
  | UIActionIndexST_M_Machine_M_Close_S_Shutdown
  | UIActionIndexST_M_Group_M_Close_S_PowerOff
  | UIActionIndexST_M_Machine_M_Close_S_PowerOff
  | UIActionIndexST_M_Group_M_Tools_T_Details
  | UIActionIndexST_M_Machine_M_Tools_T_Details
  | UIActionIndexST_M_Group_M_Tools_T_Snapshots
  | UIActionIndexST_M_Machine_M_Tools_T_Snapshots
  | UIActionIndexST_M_Group_M_Tools_T_Logs
  | UIActionIndexST_M_Machine_M_Tools_T_Logs
  | UIActionIndex_Other nat

text \<open>
  The class \<^verbatim>\<open>UIVirtualMachineItem\<close> is declared outside the translated file. An item is
  modelled by what the manager reads from it: the accessors \<^verbatim>\<open>id()\<close>, \<^verbatim>\<open>name()\<close>,
  \<^verbatim>\<open>machineState()\<close>, \<^verbatim>\<open>accessible()\<close>, \<^verbatim>\<open>canSwitchTo()\<close>,
  \<^verbatim>\<open>configurationAccessLevel()\<close>, \<^verbatim>\<open>settingsFile()\<close>, and the answers of the static
  classifiers \<^verbatim>\<open>UIVirtualMachineItem::isItemEditable(pItem)\<close>, \<^verbatim>\<open>isItemSaved\<close>,
  \<^verbatim>\<open>isItemPoweredOff\<close>, \<^verbatim>\<open>isItemStarted\<close>, \<^verbatim>\<open>isItemRunning\<close>,
  \<^verbatim>\<open>isItemRunningHeadless\<close> and \<^verbatim>\<open>isItemPaused\<close> for that item. The classifiers are
  parameters of the model: nothing is assumed about how they depend on the machine state.
\<close>

record UIVirtualMachineItem =
  id_item :: QUuid
  name_item :: string
  machineState :: KMachineState
  accessible :: bool
  canSwitchTo :: bool
  configurationAccessLevel :: ConfigurationAccessLevel
  settingsFile :: string
  isItemEditable :: bool
  isItemSaved :: bool
  isItemPoweredOff :: bool
  isItemStarted :: bool
  isItemRunning :: bool
  isItemRunningHeadless :: bool
  isItemPaused :: bool

text \<open>The central widget \<^verbatim>\<open>m_pWidget\<close>, as far as the manager queries it.\<close>

record UIVirtualBoxManagerWidget =
  currentItem :: "UIVirtualMachineItem option"
  currentItems :: "UIVirtualMachineItem list"
  isGroupSavingInProgress :: bool
  isAllItemsOfOneGroupSelected :: bool
  isSingleGroupSelected :: bool
  currentMachineTool :: UIToolType
  isCurrentStateItemSelected :: bool

text \<open>
  The action pool: per action the dynamic property \<^verbatim>\<open>"opened"\<close>, the enabled flag, the
  checked flag of toggle actions and the state of polymorphic menus.
\<close>

record UIActionPool =
  opened :: "UIActionIndex \<Rightarrow> bool"
  enabled :: "UIActionIndex \<Rightarrow> bool"
  checked :: "UIActionIndex \<Rightarrow> bool"
  menuState :: "UIActionIndex \<Rightarrow> nat"

record UIVirtualBoxManager =
  m_pWidget :: UIVirtualBoxManagerWidget
  m_pActionPool :: UIActionPool
  m_fFirstMediumEnumerationHandled :: bool

text \<open>
  The collaborators the slots call (\<^verbatim>\<open>vboxGlobal()\<close>, the COM session, console, machine and
  progress wrappers, \<^verbatim>\<open>msgCenter()\<close>, the keyboard) answer per machine: whether the session
  returned is null, whether the wrapper is ok after a call, and so on. \<^verbatim>\<open>VBOX_WS_MAC\<close> is
  the build switch of the same name.
\<close>

record environment =
  VBOX_WS_MAC :: bool
  openSession_isNull :: "QUuid \<Rightarrow> bool"
  openExistingSession_isNull :: "QUuid \<Rightarrow> bool"
  console_isNull :: "QUuid \<Rightarrow> bool"
  guestEnteredACPIMode :: "QUuid \<Rightarrow> bool"
  discardSavedState_isOk :: "QUuid \<Rightarrow> bool"
  pause_isOk :: "QUuid \<Rightarrow> bool"
  resume_isOk :: "QUuid \<Rightarrow> bool"
  powerButton_isOk :: "QUuid \<Rightarrow> bool"
  powerDown_isOk :: "QUuid \<Rightarrow> bool"
  progress_isOk :: "QUuid \<Rightarrow> bool"
  progress_resultCode :: "QUuid \<Rightarrow> int"
  confirmDiscardSavedState :: "string \<Rightarrow> bool"
  confirmResetMachine :: "string \<Rightarrow> bool"
  confirmACPIShutdownMachine :: "string \<Rightarrow> bool"
  confirmPowerOffMachine :: "string \<Rightarrow> bool"
  confirmStartMultipleMachines :: "string \<Rightarrow> bool"
  shiftModifier :: bool
  darwinResolveAlias :: "string \<Rightarrow> string"
  openMachine_isOk :: "string \<Rightarrow> bool"
  findMachine_isNull :: "string \<Rightarrow> bool"

text \<open>
  The modal sub-flows (wizards, settings dialogs, the file dialog) run a nested event loop.
  Each one is a function of the manager at the moment it is entered, and returns the
  manager at the moment it comes back, or \<open>None\<close> when the action pool no longer exists
  then (\<^verbatim>\<open>actionPool()\<close> is null).
\<close>

record modalDialogs =
  importApp_isValid :: "string \<Rightarrow> bool"
  importApp_exec :: "string \<Rightarrow> UIVirtualBoxManager \<Rightarrow> UIVirtualBoxManager option"
  exportApp_exec :: "string list \<Rightarrow> bool \<Rightarrow> UIVirtualBoxManager \<Rightarrow> UIVirtualBoxManager option"
  settingsGlobal_execute :: "UIVirtualBoxManager \<Rightarrow> UIVirtualBoxManager option"
  settingsMachine_execute ::
    "QUuid \<Rightarrow> string \<Rightarrow> string \<Rightarrow> UIVirtualBoxManager \<Rightarrow> UIVirtualBoxManager option"
  getOpenFileNames :: "UIVirtualBoxManager \<Rightarrow> string list \<times> UIVirtualBoxManager option"

text \<open>
  The calls a slot makes on its collaborators are recorded, in order: sessions, consoles,
  machines and progress dialogs, the questions and reports of the message center, the
  launches, the registry of machines, and the modal sub-flows entered. What is read from
  the manager's own widget and action pool is not a call.
\<close>

datatype event =
    OpenSession QUuid
  | OpenExistingSession QUuid
  | UnlockMachine QUuid
  | Console_GetGuestEnteredACPIMode QUuid
  | Console_Pause QUuid
  | Console_Resume QUuid
  | Console_Reset QUuid
  | Console_PowerButton QUuid
  | Console_PowerDown QUuid
  | Machine_DiscardSavedState QUuid bool
  | ShowModalProgressDialog QUuid
  | ConfirmDiscardSavedState string
  | ConfirmResetMachine string
  | ConfirmACPIShutdownMachine string
  | ConfirmPowerOffMachine string
  | ConfirmStartMultipleMachines string
  | CannotDiscardSavedState QUuid
  | CannotPauseMachine QUuid
  | CannotResumeMachine QUuid
  | CannotACPIShutdownMachine QUuid
  | CannotPowerDownMachine_Console QUuid
  | CannotPowerDownMachine_Progress QUuid
  | LaunchMachine QUuid LaunchMode
  | OpenURL string
  | OpenMachine string
  | FindMachine string
  | CannotOpenMachine string
  | CannotReregisterExistingMachine string
  | RegisterMachine string
  | WizardImportApp_exec string
  | WizardExportApp_exec "string list" bool
  | SettingsDialogGlobal_execute
  | SettingsDialogMachine_execute QUuid string string
  | FileDialog_getOpenFileNames


section \<open>The enablement evaluator\<close>

text \<open>The static helpers of the manager: each one is a loop over the items passed.\<close>

fun isItemsPoweredOff :: "UIVirtualMachineItem list \<Rightarrow> bool" where
  "isItemsPoweredOff [] = True"
| "isItemsPoweredOff (pItem # items) =
     (if \<not> isItemPoweredOff pItem then False else isItemsPoweredOff items)"

definition toLower :: "char \<Rightarrow> char" where
  "toLower c =
     (if (65::nat) \<le> of_char c \<and> of_char c \<le> (90::nat) then char_of (of_char c + (32::nat)) else c)"

definition endsWith_CaseInsensitive :: "string \<Rightarrow> string \<Rightarrow> bool" where
  "endsWith_CaseInsensitive s suffix =
     (length suffix \<le> length s \<and>
      map toLower (drop (length s - length suffix) s) = map toLower suffix)"

fun isAtLeastOneItemSupportsShortcuts :: "environment \<Rightarrow> UIVirtualMachineItem list \<Rightarrow> bool" where
  "isAtLeastOneItemSupportsShortcuts e [] = False"
| "isAtLeastOneItemSupportsShortcuts e (pItem # items) =
     (if accessible pItem \<and>
         (if VBOX_WS_MAC e then endsWith_CaseInsensitive (settingsFile pItem) ''.vbox'' else True)
      then True
      else isAtLeastOneItemSupportsShortcuts e items)"

fun isAtLeastOneItemAccessible :: "UIVirtualMachineItem list \<Rightarrow> bool" where
  "isAtLeastOneItemAccessible [] = False"
| "isAtLeastOneItemAccessible (pItem # items) =
     (if accessible pItem then True else isAtLeastOneItemAccessible items)"

fun isAtLeastOneItemInaccessible :: "UIVirtualMachineItem list \<Rightarrow> bool" where
  "isAtLeastOneItemInaccessible [] = False"
| "isAtLeastOneItemInaccessible (pItem # items) =
     (if \<not> accessible pItem then True else isAtLeastOneItemInaccessible items)"

fun isAtLeastOneItemRemovable :: "UIVirtualMachineItem list \<Rightarrow> bool" where
  "isAtLeastOneItemRemovable [] = False"
| "isAtLeastOneItemRemovable (pItem # items) =
     (if \<not> accessible pItem \<or> isItemEditable pItem then True
      else isAtLeastOneItemRemovable items)"

fun isAtLeastOneItemCanBeStarted :: "UIVirtualMachineItem list \<Rightarrow> bool" where
  "isAtLeastOneItemCanBeStarted [] = False"
| "isAtLeastOneItemCanBeStarted (pItem # items) =
     (if isItemPoweredOff pItem \<and> isItemEditable pItem then True
      else isAtLeastOneItemCanBeStarted items)"

fun isAtLeastOneItemCanBeShown :: "UIVirtualMachineItem list \<Rightarrow> bool" where
  "isAtLeastOneItemCanBeShown [] = False"
| "isAtLeastOneItemCanBeShown (pItem # items) =
     (if isItemStarted pItem \<and> (canSwitchTo pItem \<or> isItemRunningHeadless pItem) then True
      else isAtLeastOneItemCanBeShown items)"

fun isAtLeastOneItemCanBeStartedOrShown :: "UIVirtualMachineItem list \<Rightarrow> bool" where
  "isAtLeastOneItemCanBeStartedOrShown [] = False"
| "isAtLeastOneItemCanBeStartedOrShown (pItem # items) =
     (if (isItemPoweredOff pItem \<and> isItemEditable pItem) \<or>
         (isItemStarted pItem \<and> (canSwitchTo pItem \<or> isItemRunningHeadless pItem))
      then True
      else isAtLeastOneItemCanBeStartedOrShown items)"

fun isAtLeastOneItemDiscardable :: "UIVirtualMachineItem list \<Rightarrow> bool" where
  "isAtLeastOneItemDiscardable [] = False"
| "isAtLeastOneItemDiscardable (pItem # items) =
     (if isItemSaved pItem \<and> isItemEditable pItem then True
      else isAtLeastOneItemDiscardable items)"

fun isAtLeastOneItemStarted :: "UIVirtualMachineItem list \<Rightarrow> bool" where
  "isAtLeastOneItemStarted [] = False"
| "isAtLeastOneItemStarted (pItem # items) =
     (if isItemStarted pItem then True else isAtLeastOneItemStarted items)"

fun isAtLeastOneItemRunning :: "UIVirtualMachineItem list \<Rightarrow> bool" where
  "isAtLeastOneItemRunning [] = False"
| "isAtLeastOneItemRunning (pItem # items) =
     (if isItemRunning pItem then True else isAtLeastOneItemRunning items)"

text \<open>
  \<^verbatim>\<open>isAtLeastOneItemAbleToShutdown\<close> asks the console of each running item, through a
  session it opens and releases. The function returns its answer with the calls made.
\<close>

fun isAtLeastOneItemAbleToShutdown ::
  "environment \<Rightarrow> UIVirtualMachineItem list \<Rightarrow> bool \<times> event list" where
  "isAtLeastOneItemAbleToShutdown e [] = (False, [])"
| "isAtLeastOneItemAbleToShutdown e (pItem # items) =
     (if \<not> isItemRunning pItem then isAtLeastOneItemAbleToShutdown e items
      else if openExistingSession_isNull e (id_item pItem) then
        (let (b, calls) = isAtLeastOneItemAbleToShutdown e items
         in (b, OpenExistingSession (id_item pItem) # calls))
      else if console_isNull e (id_item pItem) then
        (let (b, calls) = isAtLeastOneItemAbleToShutdown e items
         in (b, [OpenExistingSession (id_item pItem), UnlockMachine (id_item pItem)] @ calls))
      else if guestEnteredACPIMode e (id_item pItem) then
        (True, [OpenExistingSession (id_item pItem),
                Console_GetGuestEnteredACPIMode (id_item pItem),
                UnlockMachine (id_item pItem)])
      else
        (let (b, calls) = isAtLeastOneItemAbleToShutdown e items
         in (b, [OpenExistingSession (id_item pItem),
                 Console_GetGuestEnteredACPIMode (id_item pItem),
                 UnlockMachine (id_item pItem)] @ calls)))"

definition toolAllowsCurrentState :: "UIVirtualBoxManagerWidget \<Rightarrow> bool" where
  "toolAllowsCurrentState w =
     (currentMachineTool w \<noteq> UIToolType_Snapshots \<or> isCurrentStateItemSelected w)"

text \<open>
  \<^verbatim>\<open>isActionEnabled\<close>: the first switch answers for the global actions, the empty item
  list disables every other action, the second switch answers for the machine actions,
  and an action of neither switch is disabled. The close sub-actions call the function
  again for \<^verbatim>\<open>UIActionIndexST_M_Machine_M_Close\<close>. The result carries the calls made
  by the shutdown probe, which runs only when the first conjunct holds.
\<close>

function isActionEnabledT ::
  "UIVirtualBoxManager \<Rightarrow> environment \<Rightarrow> UIActionIndex \<Rightarrow> UIVirtualMachineItem list
     \<Rightarrow> bool \<times> event list" where
  "isActionEnabledT m e iActionIndex items =
    (if iActionIndex = UIActionIndex_M_Application_S_Preferences \<or>
        iActionIndex = UIActionIndexST_M_File_S_ExportAppliance \<or>
        iActionIndex = UIActionIndexST_M_File_S_ImportAppliance \<or>
        iActionIndex = UIActionIndexST_M_Welcome_S_Add
     then (\<not> opened (m_pActionPool m) iActionIndex, [])
     else if items = [] then (False, [])
     else
       (let pItem = hd items; w = m_pWidget m in
        case iActionIndex of
          UIActionIndexST_M_Group_S_Rename \<Rightarrow>
            (\<not> isGroupSavingInProgress w \<and> isItemsPoweredOff items, [])
        | UIActionIndexST_M_Group_S_Remove \<Rightarrow>
            (\<not> isGroupSavingInProgress w \<and> isItemsPoweredOff items, [])
        | UIActionIndexST_M_Group_S_Sort \<Rightarrow>
            (\<not> isGroupSavingInProgress w \<and> isSingleGroupSelected w, [])
        | UIActionIndexST_M_Machine_S_Settings \<Rightarrow>
            (\<not> opened (m_pActionPool m) iActionIndex \<and>
             \<not> isGroupSavingInProgress w \<and>
             length items = 1 \<and>
             configurationAccessLevel pItem \<noteq> ConfigurationAccessLevel_Null \<and>
             toolAllowsCurrentState w, [])
        | UIActionIndexST_M_Machine_S_Clone \<Rightarrow>
            (\<not> isGroupSavingInProgress w \<and> length items = 1 \<and> isItemEditable pItem, [])
        | UIActionIndexST_M_Machine_S_Move \<Rightarrow>
            (\<not> isGroupSavingInProgress w \<and> length items = 1 \<and> isItemEditable pItem, [])
        | UIActionIndexST_M_Machine_S_ExportToOCI \<Rightarrow>
            (\<not> opened (m_pActionPool m) iActionIndex \<and> length items = 1, [])
        | UIActionIndexST_M_Machine_S_Remove \<Rightarrow>
            (\<not> isGroupSavingInProgress w \<and> isAtLeastOneItemRemovable items, [])
        | UIActionIndexST_M_Machine_S_AddGroup \<Rightarrow>
            (\<not> isGroupSavingInProgress w \<and>
             \<not> isAllItemsOfOneGroupSelected w \<and>
             isItemsPoweredOff items, [])
        | UIActionIndexST_M_Group_M_StartOrShow \<Rightarrow>
            (\<not> isGroupSavingInProgress w \<and> isAtLeastOneItemCanBeStartedOrShown items \<and>
             toolAllowsCurrentState w, [])
        | UIActionIndexST_M_Group_M_StartOrShow_S_StartNormal \<Rightarrow>
            (\<not> isGroupSavingInProgress w \<and> isAtLeastOneItemCanBeStartedOrShown items \<and>
             toolAllowsCurrentState w, [])
        | UIActionIndexST_M_Group_M_StartOrShow_S_StartHeadless \<Rightarrow>
            (\<not> isGroupSavingInProgress w \<and> isAtLeastOneItemCanBeStartedOrShown items \<and>
             toolAllowsCurrentState w, [])
        | UIActionIndexST_M_Group_M_StartOrShow_S_StartDetachable \<Rightarrow>
            (\<not> isGroupSavingInProgress w \<and> isAtLeastOneItemCanBeStartedOrShown items \<and>
             toolAllowsCurrentState w, [])
        | UIActionIndexST_M_Machine_M_StartOrShow \<Rightarrow>
            (\<not> isGroupSavingInProgress w \<and> isAtLeastOneItemCanBeStartedOrShown items \<and>
             toolAllowsCurrentState w, [])
        | UIActionIndexST_M_Machine_M_StartOrShow_S_StartNormal \<Rightarrow>
            (\<not> isGroupSavingInProgress w \<and> isAtLeastOneItemCanBeStartedOrShown items \<and>
             toolAllowsCurrentState w, [])
        | UIActionIndexST_M_Machine_M_StartOrShow_S_StartHeadless \<Rightarrow>
            (\<not> isGroupSavingInProgress w \<and> isAtLeastOneItemCanBeStartedOrShown items \<and>
             toolAllowsCurrentState w, [])
        | UIActionIndexST_M_Machine_M_StartOrShow_S_StartDetachable \<Rightarrow>
            (\<not> isGroupSavingInProgress w \<and> isAtLeastOneItemCanBeStartedOrShown items \<and>
             toolAllowsCurrentState w, [])
        | UIActionIndexST_M_Group_S_Discard \<Rightarrow>
            (\<not> isGroupSavingInProgress w \<and> isAtLeastOneItemDiscardable items \<and>
             toolAllowsCurrentState w, [])
        | UIActionIndexST_M_Machine_S_Discard \<Rightarrow>
            (\<not> isGroupSavingInProgress w \<and> isAtLeastOneItemDiscardable items \<and>
             toolAllowsCurrentState w, [])
        | UIActionIndexST_M_Group_S_ShowLogDialog \<Rightarrow> (isAtLeastOneItemAccessible items, [])
        | UIActionIndexST_M_Machine_S_ShowLogDialog \<Rightarrow> (isAtLeastOneItemAccessible items, [])
        | UIActionIndexST_M_Group_T_Pause \<Rightarrow> (isAtLeastOneItemStarted items, [])
        | UIActionIndexST_M_Machine_T_Pause \<Rightarrow> (isAtLeastOneItemStarted items, [])
        | UIActionIndexST_M_Group_S_Reset \<Rightarrow> (isAtLeastOneItemRunning items, [])
        | UIActionIndexST_M_Machine_S_Reset \<Rightarrow> (isAtLeastOneItemRunning items, [])
        | UIActionIndexST_M_Group_S_Refresh \<Rightarrow> (isAtLeastOneItemInaccessible items, [])
        | UIActionIndexST_M_Machine_S_Refresh \<Rightarrow> (isAtLeastOneItemInaccessible items, [])
        | UIActionIndexST_M_Group_S_ShowInFileManager \<Rightarrow> (isAtLeastOneItemAccessible items, [])
        | UIActionIndexST_M_Machine_S_ShowInFileManager \<Rightarrow> (isAtLeastOneItemAccessible items, [])
        | UIActionIndexST_M_Machine_S_SortParent \<Rightarrow> (\<not> isGroupSavingInProgress w, [])
        | UIActionIndexST_M_Group_S_CreateShortcut \<Rightarrow>
            (isAtLeastOneItemSupportsShortcuts e items, [])
        | UIActionIndexST_M_Machine_S_CreateShortcut \<Rightarrow>
            (isAtLeastOneItemSupportsShortcuts e items, [])
        | UIActionIndexST_M_Group_M_Close \<Rightarrow> (isAtLeastOneItemStarted items, [])
        | UIActionIndexST_M_Machine_M_Close \<Rightarrow> (isAtLeastOneItemStarted items, [])
        | UIActionIndexST_M_Group_M_Close_S_Detach \<Rightarrow>
            isActionEnabledT m e UIActionIndexST_M_Machine_M_Close items
        | UIActionIndexST_M_Machine_M_Close_S_Detach \<Rightarrow>
            isActionEnabledT m e UIActionIndexST_M_Machine_M_Close items
        | UIActionIndexST_M_Group_M_Close_S_SaveState \<Rightarrow>
            isActionEnabledT m e UIActionIndexST_M_Machine_M_Close items
        | UIActionIndexST_M_Machine_M_Close_S_SaveState \<Rightarrow>
            isActionEnabledT m e UIActionIndexST_M_Machine_M_Close items
        | UIActionIndexST_M_Group_M_Close_S_Shutdown \<Rightarrow>
            (let (fClose, calls) = isActionEnabledT m e UIActionIndexST_M_Machine_M_Close items
             in if fClose
                then (let (fAble, probe) = isAtLeastOneItemAbleToShutdown e items
                      in (fAble, calls @ probe))
                else (False, calls))
        | UIActionIndexST_M_Machine_M_Close_S_Shutdown \<Rightarrow>
            (let (fClose, calls) = isActionEnabledT m e UIActionIndexST_M_Machine_M_Close items
             in if fClose
                then (let (fAble, probe) = isAtLeastOneItemAbleToShutdown e items
                      in (fAble, calls @ probe))
                else (False, calls))
        | UIActionIndexST_M_Group_M_Close_S_PowerOff \<Rightarrow>
            isActionEnabledT m e UIActionIndexST_M_Machine_M_Close items
        | UIActionIndexST_M_Machine_M_Close_S_PowerOff \<Rightarrow>
            isActionEnabledT m e UIActionIndexST_M_Machine_M_Close items
        | _ \<Rightarrow> (False, [])))"
  by pat_completeness auto
termination
  by (relation "measure (\<lambda>(m, e, iActionIndex, items).
        if iActionIndex = UIActionIndexST_M_Machine_M_Close then 0 else 1)") auto

declare isActionEnabledT.simps [simp del]

definition isActionEnabled ::
  "UIVirtualBoxManager \<Rightarrow> environment \<Rightarrow> UIActionIndex \<Rightarrow> UIVirtualMachineItem list \<Rightarrow> bool" where
  "isActionEnabled m e iActionIndex items = fst (isActionEnabledT m e iActionIndex items)"


section \<open>The slots that act on every selected machine\<close>

text \<open>\<^verbatim>\<open>QStringList::join\<close> with a separator.\<close>

fun join :: "string list \<Rightarrow> string \<Rightarrow> string" where
  "join [] sep = []"
| "join [s] sep = s"
| "join (s # ss) sep = s @ sep @ join ss sep"

text \<open>
  The first loop of a slot: it keeps the items for which the action is enabled when the
  item is passed alone, in selection order. The calls of the evaluator are kept too.
\<close>

fun itemsEnabledAlone ::
  "UIVirtualBoxManager \<Rightarrow> environment \<Rightarrow> UIActionIndex \<Rightarrow> UIVirtualMachineItem list
     \<Rightarrow> UIVirtualMachineItem list \<times> event list" where
  "itemsEnabledAlone m e iActionIndex [] = ([], [])"
| "itemsEnabledAlone m e iActionIndex (pItem # items) =
     (let (fEnabled, calls) = isActionEnabledT m e iActionIndex [pItem];
          (kept, more) = itemsEnabledAlone m e iActionIndex items
      in (if fEnabled then pItem # kept else kept, calls @ more))"

text \<open>
  The second loop of \<^verbatim>\<open>sltPerformDiscardMachineState\<close>. A null session ends the slot.
\<close>

fun discardEach :: "environment \<Rightarrow> UIVirtualMachineItem list \<Rightarrow> event list" where
  "discardEach e [] = []"
| "discardEach e (pItem # items) =
     (if openSession_isNull e (id_item pItem) then [OpenSession (id_item pItem)]
      else [OpenSession (id_item pItem), Machine_DiscardSavedState (id_item pItem) True] @
           (if \<not> discardSavedState_isOk e (id_item pItem)
            then [CannotDiscardSavedState (id_item pItem)] else []) @
           [UnlockMachine (id_item pItem)] @
           discardEach e items)"

text \<open>
  The slots return nothing; the model returns the calls made. \<^verbatim>\<open>AssertMsgReturnVoid\<close> on
  an empty selection leaves the slot; \<^verbatim>\<open>AssertMsg\<close> on an empty list of names does not.
\<close>

definition sltPerformDiscardMachineState :: "UIVirtualBoxManager \<Rightarrow> environment \<Rightarrow> event list" where
  "sltPerformDiscardMachineState m e =
     (let items = currentItems (m_pWidget m) in
      if items = [] then []
      else
        (let (itemsToDiscard, calls) = itemsEnabledAlone m e UIActionIndexST_M_Group_S_Discard items;
             machineNames = map name_item itemsToDiscard
         in if \<not> confirmDiscardSavedState e (join machineNames '', '')
            then calls @ [ConfirmDiscardSavedState (join machineNames '', '')]
            else calls @ [ConfirmDiscardSavedState (join machineNames '', '')] @
                 discardEach e itemsToDiscard))"

text \<open>
  \<^verbatim>\<open>sltPerformPauseOrResumeMachine\<close>: one loop; an item is skipped when the toggle is
  not enabled for it alone, or when it is already in the state asked for.
\<close>

fun pauseOrResumeEach ::
  "UIVirtualBoxManager \<Rightarrow> environment \<Rightarrow> bool \<Rightarrow> UIVirtualMachineItem list \<Rightarrow> event list" where
  "pauseOrResumeEach m e fPause [] = []"
| "pauseOrResumeEach m e fPause (pItem # items) =
     (let enmState = machineState pItem;
          (fEnabled, calls) = isActionEnabledT m e UIActionIndexST_M_Group_T_Pause [pItem]
      in if \<not> fEnabled then calls @ pauseOrResumeEach m e fPause items
         else if fPause \<and>
                 (enmState = KMachineState_Paused \<or>
                  enmState = KMachineState_TeleportingPausedVM)
         then calls @ pauseOrResumeEach m e fPause items
         else if \<not> fPause \<and>
                 (enmState = KMachineState_Running \<or>
                  enmState = KMachineState_Teleporting \<or>
                  enmState = KMachineState_LiveSnapshotting)
         then calls @ pauseOrResumeEach m e fPause items
         else if openExistingSession_isNull e (id_item pItem)
         then calls @ [OpenExistingSession (id_item pItem)]
         else calls @
              [OpenExistingSession (id_item pItem),
               (if fPause then Console_Pause (id_item pItem) else Console_Resume (id_item pItem))] @
              (if \<not> (if fPause then pause_isOk e (id_item pItem) else resume_isOk e (id_item pItem))
               then [if fPause then CannotPauseMachine (id_item pItem)
                     else CannotResumeMachine (id_item pItem)]
               else []) @
              [UnlockMachine (id_item pItem)] @
              pauseOrResumeEach m e fPause items)"

definition sltPerformPauseOrResumeMachine ::
  "UIVirtualBoxManager \<Rightarrow> environment \<Rightarrow> bool \<Rightarrow> event list" where
  "sltPerformPauseOrResumeMachine m e fPause =
     (let items = currentItems (m_pWidget m) in
      if items = [] then [] else pauseOrResumeEach m e fPause items)"

fun resetEach :: "environment \<Rightarrow> UIVirtualMachineItem list \<Rightarrow> event list" where
  "resetEach e [] = []"
| "resetEach e (pItem # items) =
     (if openExistingSession_isNull e (id_item pItem) then [OpenExistingSession (id_item pItem)]
      else [OpenExistingSession (id_item pItem), Console_Reset (id_item pItem),
            UnlockMachine (id_item pItem)] @
           resetEach e items)"

definition sltPerformResetMachine :: "UIVirtualBoxManager \<Rightarrow> environment \<Rightarrow> event list" where
  "sltPerformResetMachine m e =
     (let items = currentItems (m_pWidget m) in
      if items = [] then []
      else
        (let (itemsToReset, calls) = itemsEnabledAlone m e UIActionIndexST_M_Group_S_Reset items;
             machineNames = map name_item itemsToReset
         in if \<not> confirmResetMachine e (join machineNames '', '')
            then calls @ [ConfirmResetMachine (join machineNames '', '')]
            else calls @ [ConfirmResetMachine (join machineNames '', '')] @
                 resetEach e itemsToReset))"

fun shutdownEach :: "environment \<Rightarrow> UIVirtualMachineItem list \<Rightarrow> event list" where
  "shutdownEach e [] = []"
| "shutdownEach e (pItem # items) =
     (if openExistingSession_isNull e (id_item pItem) then [OpenExistingSession (id_item pItem)]
      else [OpenExistingSession (id_item pItem), Console_PowerButton (id_item pItem)] @
           (if \<not> powerButton_isOk e (id_item pItem)
            then [CannotACPIShutdownMachine (id_item pItem)] else []) @
           [UnlockMachine (id_item pItem)] @
           shutdownEach e items)"

definition sltPerformShutdownMachine :: "UIVirtualBoxManager \<Rightarrow> environment \<Rightarrow> event list" where
  "sltPerformShutdownMachine m e =
     (let items = currentItems (m_pWidget m) in
      if items = [] then []
      else
        (let (itemsToShutdown, calls) =
               itemsEnabledAlone m e UIActionIndexST_M_Machine_M_Close_S_Shutdown items;
             machineNames = map name_item itemsToShutdown
         in if \<not> confirmACPIShutdownMachine e (join machineNames '', '')
            then calls @ [ConfirmACPIShutdownMachine (join machineNames '', '')]
            else calls @ [ConfirmACPIShutdownMachine (join machineNames '', '')] @
                 shutdownEach e itemsToShutdown))"

text \<open>
  The second loop of \<^verbatim>\<open>sltPerformPowerOffMachine\<close>: the power down is reported as failed
  when the console is not ok after the call, or when the progress is not ok or has a
  result code other than zero; the machine is unlocked in both cases and the loop goes on.
\<close>

fun powerOffEach :: "environment \<Rightarrow> UIVirtualMachineItem list \<Rightarrow> event list" where
  "powerOffEach e [] = []"
| "powerOffEach e (pItem # items) =
     (if openExistingSession_isNull e (id_item pItem) then [OpenExistingSession (id_item pItem)]
      else [OpenExistingSession (id_item pItem), Console_PowerDown (id_item pItem)] @
           (if powerDown_isOk e (id_item pItem)
            then ShowModalProgressDialog (id_item pItem) #
                 (if \<not> progress_isOk e (id_item pItem) \<or> progress_resultCode e (id_item pItem) \<noteq> 0
                  then [CannotPowerDownMachine_Progress (id_item pItem)] else [])
            else [CannotPowerDownMachine_Console (id_item pItem)]) @
           [UnlockMachine (id_item pItem)] @
           powerOffEach e items)"

definition sltPerformPowerOffMachine :: "UIVirtualBoxManager \<Rightarrow> environment \<Rightarrow> event list" where
  "sltPerformPowerOffMachine m e =
     (let items = currentItems (m_pWidget m) in
      if items = [] then []
      else
        (let (itemsToPowerOff, calls) =
               itemsEnabledAlone m e UIActionIndexST_M_Machine_M_Close_S_PowerOff items;
             machineNames = map name_item itemsToPowerOff
         in if \<not> confirmPowerOffMachine e (join machineNames '', '')
            then calls @ [ConfirmPowerOffMachine (join machineNames '', '')]
            else calls @ [ConfirmPowerOffMachine (join machineNames '', '')] @
                 powerOffEach e itemsToPowerOff))"

text \<open>
  \<^verbatim>\<open>performStartOrShowVirtualMachines\<close>: nothing while groups are being saved; the
  startable items are collected; the user is asked only when more than one item is
  startable; then every item that can be shown, or that can be started with the start
  confirmed, is launched.
\<close>

fun startableItems :: "UIVirtualMachineItem list \<Rightarrow> UIVirtualMachineItem list" where
  "startableItems [] = []"
| "startableItems (pItem # items) =
     (if isAtLeastOneItemCanBeStarted [pItem] then pItem # startableItems items
      else startableItems items)"

definition itemLaunchMode :: "environment \<Rightarrow> LaunchMode \<Rightarrow> UIVirtualMachineItem \<Rightarrow> LaunchMode" where
  "itemLaunchMode e enmLaunchMode pItem =
     (if enmLaunchMode = LaunchMode_Invalid
      then (if isItemRunningHeadless pItem then LaunchMode_Separate
            else if shiftModifier e then LaunchMode_Headless
            else LaunchMode_Default)
      else enmLaunchMode)"

fun launchEach ::
  "environment \<Rightarrow> bool \<Rightarrow> LaunchMode \<Rightarrow> UIVirtualMachineItem list \<Rightarrow> event list" where
  "launchEach e fStartConfirmed enmLaunchMode [] = []"
| "launchEach e fStartConfirmed enmLaunchMode (pItem # items) =
     (if isAtLeastOneItemCanBeShown [pItem] \<or>
         (isAtLeastOneItemCanBeStarted [pItem] \<and> fStartConfirmed)
      then LaunchMachine (id_item pItem) (itemLaunchMode e enmLaunchMode pItem) #
           launchEach e fStartConfirmed enmLaunchMode items
      else launchEach e fStartConfirmed enmLaunchMode items)"

definition performStartOrShowVirtualMachines ::
  "UIVirtualBoxManager \<Rightarrow> environment \<Rightarrow> UIVirtualMachineItem list \<Rightarrow> LaunchMode \<Rightarrow> event list" where
  "performStartOrShowVirtualMachines m e items enmLaunchMode =
     (if isGroupSavingInProgress (m_pWidget m) then []
      else
        (let startableMachineNames = map name_item (startableItems items) in
         if length (startableItems items) > 1
         then ConfirmStartMultipleMachines (join startableMachineNames '', '') #
              launchEach e (confirmStartMultipleMachines e (join startableMachineNames '', ''))
                enmLaunchMode items
         else launchEach e True enmLaunchMode items))"

definition sltPerformStartOrShowMachine :: "UIVirtualBoxManager \<Rightarrow> environment \<Rightarrow> event list" where
  "sltPerformStartOrShowMachine m e =
     (let items = currentItems (m_pWidget m) in
      if items = [] then [] else performStartOrShowVirtualMachines m e items LaunchMode_Invalid)"

definition sltPerformStartMachineNormal :: "UIVirtualBoxManager \<Rightarrow> environment \<Rightarrow> event list" where
  "sltPerformStartMachineNormal m e =
     (let items = currentItems (m_pWidget m) in
      if items = [] then [] else performStartOrShowVirtualMachines m e items LaunchMode_Default)"

definition sltPerformStartMachineHeadless :: "UIVirtualBoxManager \<Rightarrow> environment \<Rightarrow> event list" where
  "sltPerformStartMachineHeadless m e =
     (let items = currentItems (m_pWidget m) in
      if items = [] then [] else performStartOrShowVirtualMachines m e items LaunchMode_Headless)"

definition sltPerformStartMachineDetachable :: "UIVirtualBoxManager \<Rightarrow> environment \<Rightarrow> event list" where
  "sltPerformStartMachineDetachable m e =
     (let items = currentItems (m_pWidget m) in
      if items = [] then [] else performStartOrShowVirtualMachines m e items LaunchMode_Separate)"


section \<open>The appearance of the actions\<close>

text \<open>The actions \<^verbatim>\<open>updateActionsAppearance\<close> enables or disables, in its order.\<close>

definition updatedActions :: "UIActionIndex list" where
  "updatedActions =
     [UIActionIndex_M_Application_S_Preferences,
      UIActionIndexST_M_File_S_ExportAppliance,
      UIActionIndexST_M_File_S_ImportAppliance,
      UIActionIndexST_M_Welcome_S_Add,
      UIActionIndexST_M_Group_S_Rename,
      UIActionIndexST_M_Group_S_Remove,
      UIActionIndexST_M_Group_T_Pause,
      UIActionIndexST_M_Group_S_Reset,
      UIActionIndexST_M_Group_S_Discard,
      UIActionIndexST_M_Group_S_ShowLogDialog,
      UIActionIndexST_M_Group_S_Refresh,
      UIActionIndexST_M_Group_S_ShowInFileManager,
      UIActionIndexST_M_Group_S_CreateShortcut,
      UIActionIndexST_M_Group_S_Sort,
      UIActionIndexST_M_Machine_S_Settings,
      UIActionIndexST_M_Machine_S_Clone,
      UIActionIndexST_M_Machine_S_Move,
      UIActionIndexST_M_Machine_S_ExportToOCI,
      UIActionIndexST_M_Machine_S_Remove,
      UIActionIndexST_M_Machine_S_AddGroup,
      UIActionIndexST_M_Machine_T_Pause,
      UIActionIndexST_M_Machine_S_Reset,
      UIActionIndexST_M_Machine_S_Discard,
      UIActionIndexST_M_Machine_S_ShowLogDialog,
      UIActionIndexST_M_Machine_S_Refresh,
      UIActionIndexST_M_Machine_S_ShowInFileManager,
      UIActionIndexST_M_Machine_S_CreateShortcut,
      UIActionIndexST_M_Machine_S_SortParent,
      UIActionIndexST_M_Group_M_StartOrShow,
      UIActionIndexST_M_Group_M_StartOrShow_S_StartNormal,
      UIActionIndexST_M_Group_M_StartOrShow_S_StartHeadless,
      UIActionIndexST_M_Group_M_StartOrShow_S_StartDetachable,
      UIActionIndexST_M_Machine_M_StartOrShow,
      UIActionIndexST_M_Machine_M_StartOrShow_S_StartNormal,
      UIActionIndexST_M_Machine_M_StartOrShow_S_StartHeadless,
      UIActionIndexST_M_Machine_M_StartOrShow_S_StartDetachable,
      UIActionIndexST_M_Group_M_Close,
      UIActionIndexST_M_Group_M_Close_S_Detach,
      UIActionIndexST_M_Group_M_Close_S_SaveState,
      UIActionIndexST_M_Group_M_Close_S_Shutdown,
      UIActionIndexST_M_Group_M_Close_S_PowerOff,
      UIActionIndexST_M_Machine_M_Close,
      UIActionIndexST_M_Machine_M_Close_S_Detach,
      UIActionIndexST_M_Machine_M_Close_S_SaveState,
      UIActionIndexST_M_Machine_M_Close_S_Shutdown,
      UIActionIndexST_M_Machine_M_Close_S_PowerOff]"

text \<open>The loop that looks for the first started item of the selection, and stops there.\<close>

fun firstStartedAction :: "UIVirtualMachineItem list \<Rightarrow> UIVirtualMachineItem option" where
  "firstStartedAction [] = None"
| "firstStartedAction (pSelectedItem # items) =
     (if isItemStarted pSelectedItem then Some pSelectedItem else firstStartedAction items)"

text \<open>
  \<^verbatim>\<open>updateActionsAppearance\<close> evaluates every action of the list above, in order, and
  stores the answer. The calls made meanwhile are those of the evaluator, action by
  action: the probes of the two shutdown actions. \<open>updateActionsAppearance_calls\<close>
  gives these calls, \<open>updateActionsAppearance\<close> the manager with the action pool updated.
\<close>

definition updateActionsAppearance_calls :: "environment \<Rightarrow> UIVirtualBoxManager \<Rightarrow> event list" where
  "updateActionsAppearance_calls e m =
     concat (map (\<lambda>iActionIndex.
                    snd (isActionEnabledT m e iActionIndex (currentItems (m_pWidget m))))
               updatedActions)"

definition updateActionsAppearance :: "environment \<Rightarrow> UIVirtualBoxManager \<Rightarrow> UIVirtualBoxManager" where
  "updateActionsAppearance e m =
     (let items = currentItems (m_pWidget m);
          pool = m_pActionPool m;
          pool1 = pool\<lparr>enabled :=
                    (\<lambda>a. if a \<in> set updatedActions then isActionEnabled m e a items
                         else enabled pool a)\<rparr>;
          iState = (case currentItem (m_pWidget m) of
                      None \<Rightarrow> 0
                    | Some pItem \<Rightarrow>
                        if accessible pItem then (if isItemPoweredOff pItem then 0 else 1) else 0);
          pool2 = pool1\<lparr>menuState :=
                    (menuState pool1)
                      (UIActionIndexST_M_Group_M_StartOrShow := iState,
                       UIActionIndexST_M_Machine_M_StartOrShow := iState)\<rparr>;
          fChecked = (case firstStartedAction items of
                        None \<Rightarrow> False
                      | Some pFirstStartedAction \<Rightarrow> isItemPaused pFirstStartedAction);
          pool3 = pool2\<lparr>checked :=
                    (checked pool2)
                      (UIActionIndexST_M_Group_T_Pause := fChecked,
                       UIActionIndexST_M_Machine_T_Pause := fChecked)\<rparr>;
          pool4 = (case currentMachineTool (m_pWidget m) of
                     UIToolType_Details \<Rightarrow>
                       pool3\<lparr>checked :=
                         (checked pool3)
                           (UIActionIndexST_M_Group_M_Tools_T_Details := True,
                            UIActionIndexST_M_Machine_M_Tools_T_Details := True)\<rparr>
                   | UIToolType_Snapshots \<Rightarrow>
                       pool3\<lparr>checked :=
                         (checked pool3)
                           (UIActionIndexST_M_Group_M_Tools_T_Snapshots := True,
                            UIActionIndexST_M_Machine_M_Tools_T_Snapshots := True)\<rparr>
                   | UIToolType_Logs \<Rightarrow>
                       pool3\<lparr>checked :=
                         (checked pool3)
                           (UIActionIndexST_M_Group_M_Tools_T_Logs := True,
                            UIActionIndexST_M_Machine_M_Tools_T_Logs := True)\<rparr>
                   | _ \<Rightarrow> pool3)
      in m\<lparr>m_pActionPool := pool4\<rparr>)"

section \<open>The slots that open a modal sub-flow\<close>

text \<open>\<^verbatim>\<open>action->setProperty("opened", ...)\<close>: true locks, an invalid variant unlocks.\<close>

definition setOpened :: "UIActionIndex \<Rightarrow> bool \<Rightarrow> UIVirtualBoxManager \<Rightarrow> UIVirtualBoxManager" where
  "setOpened iActionIndex f m =
     m\<lparr>m_pActionPool := (m_pActionPool m)\<lparr>opened := (opened (m_pActionPool m))(iActionIndex := f)\<rparr>\<rparr>"

text \<open>
  Each slot returns the manager, if the action pool still exists when the sub-flow comes
  back, and the calls made: those of the appearance update after the lock, the sub-flow
  entered, those of the appearance update after the unlock, and what follows.
\<close>

definition sltOpenImportApplianceWizard ::
  "modalDialogs \<Rightarrow> environment \<Rightarrow> string \<Rightarrow> UIVirtualBoxManager
     \<Rightarrow> UIVirtualBoxManager option \<times> event list" where
  "sltOpenImportApplianceWizard d e strFileName m =
     (let strTmpFile = (if VBOX_WS_MAC e then darwinResolveAlias e strFileName else strFileName);
          mLocked = setOpened UIActionIndexST_M_File_S_ImportAppliance True m;
          calls1 = updateActionsAppearance_calls e mLocked;
          m1 = updateActionsAppearance e mLocked;
          (r, calls2) =
            (if strFileName = [] \<or> importApp_isValid d strTmpFile
             then (importApp_exec d strTmpFile m1, [WizardImportApp_exec strTmpFile])
             else (Some m1, []))
      in case r of
           None \<Rightarrow> (None, calls1 @ calls2)
         | Some m2 \<Rightarrow>
             (let mUnlocked = setOpened UIActionIndexST_M_File_S_ImportAppliance False m2
              in (Some (updateActionsAppearance e mUnlocked),
                  calls1 @ calls2 @ updateActionsAppearance_calls e mUnlocked)))"

definition sltOpenExportApplianceWizard ::
  "modalDialogs \<Rightarrow> environment \<Rightarrow> UIActionIndex option \<Rightarrow> UIVirtualBoxManager
     \<Rightarrow> UIVirtualBoxManager option \<times> event list" where
  "sltOpenExportApplianceWizard d e sender m =
     (let names = map name_item (currentItems (m_pWidget m));
          mLocked = setOpened UIActionIndexST_M_Machine_S_ExportToOCI True
                      (setOpened UIActionIndexST_M_File_S_ExportAppliance True m);
          calls1 = updateActionsAppearance_calls e mLocked;
          m1 = updateActionsAppearance e mLocked;
          fOCI = (sender = Some UIActionIndexST_M_Machine_S_ExportToOCI)
      in case exportApp_exec d names fOCI m1 of
           None \<Rightarrow> (None, calls1 @ [WizardExportApp_exec names fOCI])
         | Some m2 \<Rightarrow>
             (let mUnlocked = setOpened UIActionIndexST_M_Machine_S_ExportToOCI False
                                (setOpened UIActionIndexST_M_File_S_ExportAppliance False m2)
              in (Some (updateActionsAppearance e mUnlocked),
                  calls1 @ [WizardExportApp_exec names fOCI] @
                  updateActionsAppearance_calls e mUnlocked)))"

definition sltOpenPreferencesDialog ::
  "modalDialogs \<Rightarrow> environment \<Rightarrow> UIVirtualBoxManager
     \<Rightarrow> UIVirtualBoxManager option \<times> event list" where
  "sltOpenPreferencesDialog d e m =
     (let mLocked = setOpened UIActionIndex_M_Application_S_Preferences True
                      (m\<lparr>m_fFirstMediumEnumerationHandled := True\<rparr>);
          calls1 = updateActionsAppearance_calls e mLocked;
          m1 = updateActionsAppearance e mLocked
      in case settingsGlobal_execute d m1 of
           None \<Rightarrow> (None, calls1 @ [SettingsDialogGlobal_execute])
         | Some m2 \<Rightarrow>
             (let mUnlocked = setOpened UIActionIndex_M_Application_S_Preferences False m2
              in (Some (updateActionsAppearance e mUnlocked),
                  calls1 @ [SettingsDialogGlobal_execute] @
                  updateActionsAppearance_calls e mUnlocked)))"

text \<open>
  \<^verbatim>\<open>sltOpenAddMachineDialog\<close>: the file dialog runs between lock and unlock, and only
  when no file was passed; the machine is opened, looked up and registered after the
  unlock. The slot marks \<^verbatim>\<open>UIActionIndexST_M_Welcome_S_Add\<close> only. It is connected,
  through \<^verbatim>\<open>sltOpenAddMachineDialogDefault\<close>, to that action and to
  \<^verbatim>\<open>UIActionIndexST_M_Group_S_Add\<close> and \<^verbatim>\<open>UIActionIndexST_M_Machine_S_Add\<close> as well.
\<close>

definition sltOpenAddMachineDialog ::
  "modalDialogs \<Rightarrow> environment \<Rightarrow> string \<Rightarrow> UIVirtualBoxManager
     \<Rightarrow> UIVirtualBoxManager option \<times> event list" where
  "sltOpenAddMachineDialog d e strFileName m =
     (let strTmpFile0 = (if VBOX_WS_MAC e then darwinResolveAlias e strFileName else strFileName);
          mLocked = setOpened UIActionIndexST_M_Welcome_S_Add True m;
          calls1 = updateActionsAppearance_calls e mLocked;
          m1 = updateActionsAppearance e mLocked;
          (strTmpFile, r, calls2) =
            (if strTmpFile0 = []
             then (let (fileNames, r) = getOpenFileNames d m1
                   in (if fileNames \<noteq> [] then hd fileNames else strTmpFile0, r,
                       [FileDialog_getOpenFileNames]))
             else (strTmpFile0, Some m1, []));
          (res, calls3) =
            (case r of
               None \<Rightarrow> (None, [])
             | Some m2 \<Rightarrow>
                 (let mUnlocked = setOpened UIActionIndexST_M_Welcome_S_Add False m2
                  in (Some (updateActionsAppearance e mUnlocked),
                      updateActionsAppearance_calls e mUnlocked)))
      in if strTmpFile = [] then (res, calls1 @ calls2 @ calls3)
         else if \<not> openMachine_isOk e strTmpFile
         then (res, calls1 @ calls2 @ calls3 @
                    [OpenMachine strTmpFile, CannotOpenMachine strTmpFile])
         else if \<not> findMachine_isNull e strTmpFile
         then (res, calls1 @ calls2 @ calls3 @
                    [OpenMachine strTmpFile, FindMachine strTmpFile,
                     CannotReregisterExistingMachine strTmpFile])
         else (res, calls1 @ calls2 @ calls3 @
                    [OpenMachine strTmpFile, FindMachine strTmpFile,
                     RegisterMachine strTmpFile]))"

text \<open>\<^verbatim>\<open>QString::split\<close> with a separator that is not empty; empty parts are kept.\<close>

function split :: "string \<Rightarrow> string \<Rightarrow> string \<Rightarrow> string list" where
  "split sep part [] = [rev part]"
| "split sep part (c # cs) =
     (if sep \<noteq> [] \<and> take (length sep) (c # cs) = sep
      then rev part # split sep [] (drop (length sep) (c # cs))
      else split sep (c # part) cs)"
  by pat_completeness auto
termination
  by (relation "measure (\<lambda>(sep, part, s). length s)") auto

text \<open>
  \<^verbatim>\<open>sltOpenMachineSettingsDialog\<close>: without a current item the slot returns at once. A
  category that is not empty and does not start with \<^verbatim>\<open>#\<close> is opened as a URL; otherwise
  the settings dialog is executed. The unlock follows both branches.
\<close>

definition sltOpenMachineSettingsDialog ::
  "modalDialogs \<Rightarrow> environment \<Rightarrow> string \<Rightarrow> string \<Rightarrow> QUuid option \<Rightarrow> UIVirtualBoxManager
     \<Rightarrow> UIVirtualBoxManager option \<times> event list" where
  "sltOpenMachineSettingsDialog d e strCategory strControl uID m =
     (case currentItem (m_pWidget m) of
        None \<Rightarrow> (Some m, [])
      | Some pItem \<Rightarrow>
          (let mLocked = setOpened UIActionIndexST_M_Machine_S_Settings True m;
               calls1 = updateActionsAppearance_calls e mLocked;
               m1 = updateActionsAppearance e mLocked;
               (r, calls2) =
                 (if strCategory \<noteq> [] \<and> hd strCategory \<noteq> CHR ''#''
                  then (Some m1, [OpenURL strCategory])
                  else
                    (let parts = split ''%%'' [] strCategory;
                         fSplit = (strControl = [] \<and> length parts = 2);
                         strCategory' = (if fSplit then parts ! 0 else strCategory);
                         strControl' = (if fSplit then parts ! 1 else strControl);
                         uId = (case uID of None \<Rightarrow> id_item pItem | Some u \<Rightarrow> u)
                     in (settingsMachine_execute d uId strCategory' strControl'
                           (m1\<lparr>m_fFirstMediumEnumerationHandled := True\<rparr>),
                         [SettingsDialogMachine_execute uId strCategory' strControl'])))
           in case r of
                None \<Rightarrow> (None, calls1 @ calls2)
              | Some m2 \<Rightarrow>
                  (let mUnlocked = setOpened UIActionIndexST_M_Machine_S_Settings False m2
                   in (Some (updateActionsAppearance e mUnlocked),
                       calls1 @ calls2 @ updateActionsAppearance_calls e mUnlocked))))"

section \<open>Reading the recorded calls\<close>

text \<open>The calls of the shutdown probe: a session opened, the console asked, the release.\<close>

definition isProbeCall :: "event \<Rightarrow> bool" where
  "isProbeCall ev =
     (case ev of
        OpenExistingSession uId \<Rightarrow> True
      | Console_GetGuestEnteredACPIMode uId \<Rightarrow> True
      | UnlockMachine uId \<Rightarrow> True
      | _ \<Rightarrow> False)"

text \<open>The question asked before several machines are started.\<close>

definition isConfirmStart :: "event \<Rightarrow> bool" where
  "isConfirmStart ev = (case ev of ConfirmStartMultipleMachines names \<Rightarrow> True | _ \<Rightarrow> False)"

text \<open>The machine a call is made on or reports about, if any.\<close>

definition machineOf :: "event \<Rightarrow> QUuid option" where
  "machineOf ev =
     (case ev of
        OpenSession uId \<Rightarrow> Some uId
      | OpenExistingSession uId \<Rightarrow> Some uId
      | UnlockMachine uId \<Rightarrow> Some uId
      | Console_GetGuestEnteredACPIMode uId \<Rightarrow> Some uId
      | Console_Pause uId \<Rightarrow> Some uId
      | Console_Resume uId \<Rightarrow> Some uId
      | Console_Reset uId \<Rightarrow> Some uId
      | Console_PowerButton uId \<Rightarrow> Some uId
      | Console_PowerDown uId \<Rightarrow> Some uId
      | Machine_DiscardSavedState uId fRemoveFile \<Rightarrow> Some uId
      | ShowModalProgressDialog uId \<Rightarrow> Some uId
      | CannotDiscardSavedState uId \<Rightarrow> Some uId
      | CannotPauseMachine uId \<Rightarrow> Some uId
      | CannotResumeMachine uId \<Rightarrow> Some uId
      | CannotACPIShutdownMachine uId \<Rightarrow> Some uId
      | CannotPowerDownMachine_Console uId \<Rightarrow> Some uId
      | CannotPowerDownMachine_Progress uId \<Rightarrow> Some uId
      | LaunchMachine uId enmLaunchMode \<Rightarrow> Some uId
      | _ \<Rightarrow> None)"

text \<open>An action is locked in a manager: marked opened and shown disabled.\<close>

definition lockedFor :: "UIActionIndex \<Rightarrow> UIVirtualBoxManager \<Rightarrow> bool" where
  "lockedFor iActionIndex m =
     (opened (m_pActionPool m) iActionIndex \<and> \<not> enabled (m_pActionPool m) iActionIndex)"

text \<open>
  The actions connected to the add-machine slot and to the export slot in
  \<^verbatim>\<open>prepareConnections\<close>.
\<close>

definition addMachineActions :: "UIActionIndex list" where
  "addMachineActions =
     [UIActionIndexST_M_Welcome_S_Add, UIActionIndexST_M_Group_S_Add, UIActionIndexST_M_Machine_S_Add]"

definition exportApplianceActions :: "UIActionIndex list" where
  "exportApplianceActions =
     [UIActionIndexST_M_File_S_ExportAppliance, UIActionIndexST_M_Machine_S_ExportToOCI]"

text \<open>The eight indexes of the start-or-show actions, which the evaluator treats alike.\<close>

definition startOrShowActions :: "UIActionIndex list" where
  "startOrShowActions =
     [UIActionIndexST_M_Group_M_StartOrShow,
      UIActionIndexST_M_Group_M_StartOrShow_S_StartNormal,
      UIActionIndexST_M_Group_M_StartOrShow_S_StartHeadless,
      UIActionIndexST_M_Group_M_StartOrShow_S_StartDetachable,
      UIActionIndexST_M_Machine_M_StartOrShow,
      UIActionIndexST_M_Machine_M_StartOrShow_S_StartNormal,
      UIActionIndexST_M_Machine_M_StartOrShow_S_StartHeadless,
      UIActionIndexST_M_Machine_M_StartOrShow_S_StartDetachable]"

section \<open>Sample machines, managers and collaborators\<close>

text \<open>A machine in a given state, classified by the flags passed.\<close>

definition machineItem ::
  "string \<Rightarrow> KMachineState \<Rightarrow> bool \<Rightarrow> bool \<Rightarrow> bool \<Rightarrow> bool \<Rightarrow> UIVirtualMachineItem" where
  "machineItem strName enmState fEditable fPoweredOff fRunning fPaused =
     \<lparr>id_item = strName, name_item = strName, machineState = enmState, accessible = True,
      canSwitchTo = False,
      configurationAccessLevel = ConfigurationAccessLevel_Other 1,
      settingsFile = strName @ ''.vbox'',
      isItemEditable = fEditable,
      isItemSaved = (enmState = KMachineState_Saved),
      isItemPoweredOff = fPoweredOff,
      isItemStarted = (fRunning \<or> fPaused),
      isItemRunning = fRunning,
      isItemRunningHeadless = False,
      isItemPaused = fPaused\<rparr>"

definition vmOff :: "string \<Rightarrow> UIVirtualMachineItem" where
  "vmOff strName = machineItem strName KMachineState_PoweredOff True True False False"

definition vmOffLocked :: "string \<Rightarrow> UIVirtualMachineItem" where
  "vmOffLocked strName = machineItem strName KMachineState_PoweredOff False True False False"

definition vmRunning :: "string \<Rightarrow> UIVirtualMachineItem" where
  "vmRunning strName = machineItem strName KMachineState_Running False False True False"

definition vmPaused :: "string \<Rightarrow> UIVirtualMachineItem" where
  "vmPaused strName = machineItem strName KMachineState_Paused False False False True"

definition vmSaved :: "string \<Rightarrow> UIVirtualMachineItem" where
  "vmSaved strName = machineItem strName KMachineState_Saved True False False False"

text \<open>A manager showing the details tool, with a selection and the group-saving flag.\<close>

definition managerWith :: "UIVirtualMachineItem list \<Rightarrow> bool \<Rightarrow> UIVirtualBoxManager" where
  "managerWith items fSaving =
     \<lparr>m_pWidget =
        \<lparr>currentItem = (case items of [] \<Rightarrow> None | pItem # _ \<Rightarrow> Some pItem),
         currentItems = items,
         isGroupSavingInProgress = fSaving,
         isAllItemsOfOneGroupSelected = False,
         isSingleGroupSelected = False,
         currentMachineTool = UIToolType_Details,
         isCurrentStateItemSelected = False\<rparr>,
      m_pActionPool =
        \<lparr>opened = (\<lambda>a. False), enabled = (\<lambda>a. True), checked = (\<lambda>a. False),
         menuState = (\<lambda>a. 0)\<rparr>,
      m_fFirstMediumEnumerationHandled = False\<rparr>"

text \<open>
  Collaborators: every session opens, every guest has entered ACPI mode, every call
  succeeds except the power down of the machines listed, and the user gives the answer
  passed to every question.
\<close>

definition collaborators :: "QUuid list \<Rightarrow> bool \<Rightarrow> environment" where
  "collaborators failing fAnswer =
     \<lparr>VBOX_WS_MAC = False,
      openSession_isNull = (\<lambda>uId. False),
      openExistingSession_isNull = (\<lambda>uId. False),
      console_isNull = (\<lambda>uId. False),
      guestEnteredACPIMode = (\<lambda>uId. True),
      discardSavedState_isOk = (\<lambda>uId. True),
      pause_isOk = (\<lambda>uId. True),
      resume_isOk = (\<lambda>uId. True),
      powerButton_isOk = (\<lambda>uId. True),
      powerDown_isOk = (\<lambda>uId. uId \<notin> set failing),
      progress_isOk = (\<lambda>uId. True),
      progress_resultCode = (\<lambda>uId. 0),
      confirmDiscardSavedState = (\<lambda>names. fAnswer),
      confirmResetMachine = (\<lambda>names. fAnswer),
      confirmACPIShutdownMachine = (\<lambda>names. fAnswer),
      confirmPowerOffMachine = (\<lambda>names. fAnswer),
      confirmStartMultipleMachines = (\<lambda>names. fAnswer),
      shiftModifier = False,
      darwinResolveAlias = (\<lambda>strFile. strFile),
      openMachine_isOk = (\<lambda>strFile. True),
      findMachine_isNull = (\<lambda>strFile. True)\<rparr>"

text \<open>Sub-flows that come back with the manager as they found it.\<close>

definition dialogsReturning :: modalDialogs where
  "dialogsReturning =
     \<lparr>importApp_isValid = (\<lambda>strFile. True),
      importApp_exec = (\<lambda>strFile m. Some m),
      exportApp_exec = (\<lambda>names fOCI m. Some m),
      settingsGlobal_execute = (\<lambda>m. Some m),
      settingsMachine_execute = (\<lambda>uId strCategory strControl m. Some m),
      getOpenFileNames = (\<lambda>m. ([], Some m))\<rparr>"

section \<open>Facts about the evaluator\<close>

lemma isActionEnabledT_Machine_M_Close:
  "isActionEnabledT m e UIActionIndexST_M_Machine_M_Close items =
     (isAtLeastOneItemStarted items, [])"
  by (cases items) (simp_all add: isActionEnabledT.simps Let_def)

lemma isActionEnabledT_PowerOff:
  "isActionEnabledT m e UIActionIndexST_M_Machine_M_Close_S_PowerOff items =
     (isAtLeastOneItemStarted items, [])"
  by (cases items) (simp_all add: isActionEnabledT.simps Let_def)

lemma isActionEnabledT_Reset:
  "isActionEnabledT m e UIActionIndexST_M_Group_S_Reset items =
     (isAtLeastOneItemRunning items, [])"
  by (cases items) (simp_all add: isActionEnabledT.simps Let_def)

lemma isActionEnabledT_Pause:
  "isActionEnabledT m e UIActionIndexST_M_Group_T_Pause items =
     (isAtLeastOneItemStarted items, [])"
  by (cases items) (simp_all add: isActionEnabledT.simps Let_def)

lemma isActionEnabledT_Discard:
  "isActionEnabledT m e UIActionIndexST_M_Group_S_Discard items =
     (\<not> isGroupSavingInProgress (m_pWidget m) \<and> isAtLeastOneItemDiscardable items \<and>
      toolAllowsCurrentState (m_pWidget m), [])"
  by (cases items) (simp_all add: isActionEnabledT.simps Let_def)

lemma isActionEnabledT_Shutdown:
  "iActionIndex = UIActionIndexST_M_Group_M_Close_S_Shutdown \<or>
   iActionIndex = UIActionIndexST_M_Machine_M_Close_S_Shutdown \<Longrightarrow>
   isActionEnabledT m e iActionIndex items =
     (if isAtLeastOneItemStarted items then isAtLeastOneItemAbleToShutdown e items
      else (False, []))"
  by (cases items) (auto simp add: isActionEnabledT.simps Let_def split: prod.splits)

lemma isActionEnabledT_Settings:
  "isActionEnabledT m e UIActionIndexST_M_Machine_S_Settings items =
     (\<not> opened (m_pActionPool m) UIActionIndexST_M_Machine_S_Settings \<and>
      \<not> isGroupSavingInProgress (m_pWidget m) \<and>
      length items = 1 \<and>
      configurationAccessLevel (hd items) \<noteq> ConfigurationAccessLevel_Null \<and>
      toolAllowsCurrentState (m_pWidget m), [])"
  by (cases items) (simp_all add: isActionEnabledT.simps Let_def)

lemma isActionEnabledT_empty:
  "iActionIndex \<noteq> UIActionIndex_M_Application_S_Preferences \<Longrightarrow>
   iActionIndex \<noteq> UIActionIndexST_M_File_S_ExportAppliance \<Longrightarrow>
   iActionIndex \<noteq> UIActionIndexST_M_File_S_ImportAppliance \<Longrightarrow>
   iActionIndex \<noteq> UIActionIndexST_M_Welcome_S_Add \<Longrightarrow>
   isActionEnabledT m e iActionIndex [] = (False, [])"
  by (simp add: isActionEnabledT.simps)

lemma isActionEnabledT_global:
  "iActionIndex = UIActionIndex_M_Application_S_Preferences \<or>
   iActionIndex = UIActionIndexST_M_File_S_ExportAppliance \<or>
   iActionIndex = UIActionIndexST_M_File_S_ImportAppliance \<or>
   iActionIndex = UIActionIndexST_M_Welcome_S_Add \<Longrightarrow>
   isActionEnabledT m e iActionIndex items = (\<not> opened (m_pActionPool m) iActionIndex, [])"
  by (subst isActionEnabledT.simps) simp

lemma isActionEnabledT_StartOrShow:
  "iActionIndex \<in> set startOrShowActions \<Longrightarrow>
   isActionEnabledT m e iActionIndex items =
     (\<not> isGroupSavingInProgress (m_pWidget m) \<and> isAtLeastOneItemCanBeStartedOrShown items \<and>
      toolAllowsCurrentState (m_pWidget m), [])"
  by (cases items) (auto simp add: startOrShowActions_def isActionEnabledT.simps Let_def)

lemma isAtLeastOneItemStarted_iff:
  "isAtLeastOneItemStarted items = (\<exists>pItem\<in>set items. isItemStarted pItem)"
  by (induction items) auto

lemma ableToShutdown_False:
  "\<forall>pItem\<in>set items. isItemRunning pItem \<longrightarrow> \<not> guestEnteredACPIMode e (id_item pItem) \<Longrightarrow>
   fst (isAtLeastOneItemAbleToShutdown e items) = False"
  by (induction items) (auto split: prod.splits)

lemma ableToShutdown_True:
  "fst (isAtLeastOneItemAbleToShutdown e items) \<Longrightarrow>
   \<exists>it\<in>set items. isItemRunning it \<and> \<not> openExistingSession_isNull e (id_item it) \<and>
      \<not> console_isNull e (id_item it) \<and> guestEnteredACPIMode e (id_item it) \<and>
      (\<exists>pre. snd (isAtLeastOneItemAbleToShutdown e items) =
          pre @ [OpenExistingSession (id_item it), Console_GetGuestEnteredACPIMode (id_item it),
                 UnlockMachine (id_item it)])"
proof (induction items)
  case Nil
  then show ?case by simp
next
  case (Cons pItem items)
  show ?case
  proof (cases "isItemRunning pItem \<and> \<not> openExistingSession_isNull e (id_item pItem) \<and>
      \<not> console_isNull e (id_item pItem) \<and> guestEnteredACPIMode e (id_item pItem)")
    case True
    then show ?thesis by auto
  next
    case False
    then have "fst (isAtLeastOneItemAbleToShutdown e items)"
      using Cons.prems by (auto split: prod.splits if_splits)
    from Cons.IH [OF this] obtain it pre where it: "it \<in> set items" "isItemRunning it"
      "\<not> openExistingSession_isNull e (id_item it)" "\<not> console_isNull e (id_item it)"
      "guestEnteredACPIMode e (id_item it)"
      "snd (isAtLeastOneItemAbleToShutdown e items) =
          pre @ [OpenExistingSession (id_item it), Console_GetGuestEnteredACPIMode (id_item it),
                 UnlockMachine (id_item it)]" by blast
    have "\<exists>pre'. snd (isAtLeastOneItemAbleToShutdown e (pItem # items)) =
          pre' @ [OpenExistingSession (id_item it), Console_GetGuestEnteredACPIMode (id_item it),
                 UnlockMachine (id_item it)]"
      using False it(6) by (auto split: prod.splits)
    with it show ?thesis by auto
  qed
qed


lemmas sample_defs = machineItem_def vmOff_def vmOffLocked_def vmRunning_def vmPaused_def vmSaved_def
  managerWith_def collaborators_def dialogsReturning_def

section \<open>Claims about the enablement evaluator\<close>

text \<open>
  Claim C5. On the empty selection the evaluator disables every action other than the four
  global ones (preferences, export appliance, import appliance, add machine): only those
  may be enabled when nothing is selected.
\<close>

theorem empty_selection_disables_machine_actions:
  "iActionIndex \<noteq> UIActionIndex_M_Application_S_Preferences \<Longrightarrow>
   iActionIndex \<noteq> UIActionIndexST_M_File_S_ExportAppliance \<Longrightarrow>
   iActionIndex \<noteq> UIActionIndexST_M_File_S_ImportAppliance \<Longrightarrow>
   iActionIndex \<noteq> UIActionIndexST_M_Welcome_S_Add \<Longrightarrow>
   isActionEnabled m e iActionIndex [] = False"
  by (simp add: isActionEnabled_def isActionEnabledT_empty)

theorem empty_selection_disables_machine_actions_witness:
  "UIActionIndexST_M_Machine_T_Pause \<noteq> UIActionIndex_M_Application_S_Preferences \<and>
   UIActionIndexST_M_Machine_T_Pause \<noteq> UIActionIndexST_M_File_S_ExportAppliance \<and>
   UIActionIndexST_M_Machine_T_Pause \<noteq> UIActionIndexST_M_File_S_ImportAppliance \<and>
   UIActionIndexST_M_Machine_T_Pause \<noteq> UIActionIndexST_M_Welcome_S_Add \<and>
   isActionEnabled (managerWith [] False) (collaborators [] True)
     UIActionIndexST_M_Machine_T_Pause [] = False \<and>
   isActionEnabled (managerWith [] False) (collaborators [] True)
     UIActionIndex_M_Application_S_Preferences [] = True"
  using empty_selection_disables_machine_actions
          [of UIActionIndexST_M_Machine_T_Pause "managerWith [] False" "collaborators [] True"]
  by (simp add: isActionEnabled_def isActionEnabledT_global managerWith_def)

text \<open>
  Claim C4, as stated, fails: a powered-off, editable machine selected alone does not have
  the start action enabled while the group definitions are being saved.
\<close>

theorem start_powered_off_counterexample:
  "isItemPoweredOff (vmOff ''vm-A'') \<and> isItemEditable (vmOff ''vm-A'') \<and>
   machineState (vmOff ''vm-A'') = KMachineState_PoweredOff \<and>
   isActionEnabled (managerWith [vmOff ''vm-A''] True) (collaborators [] True)
     UIActionIndexST_M_Machine_M_StartOrShow [vmOff ''vm-A''] = False"
  by (simp add: isActionEnabled_def isActionEnabledT_StartOrShow startOrShowActions_def sample_defs)

text \<open>
  Claim C4, amended. For a selection of one powered-off machine and each of the eight
  start-or-show actions: when the machine is editable, the action is enabled exactly when
  no group saving is in progress and the current machine tool is not the snapshots tool or
  the current-state item is selected; when the machine is not editable (and, being powered
  off, is not classified as started), the action is disabled.
\<close>

theorem start_powered_off_enabled:
  assumes "iActionIndex \<in> set startOrShowActions" and "isItemPoweredOff pItem"
  shows "(isItemEditable pItem \<longrightarrow>
            isActionEnabled m e iActionIndex [pItem] =
              (\<not> isGroupSavingInProgress (m_pWidget m) \<and>
               (currentMachineTool (m_pWidget m) \<noteq> UIToolType_Snapshots \<or>
                isCurrentStateItemSelected (m_pWidget m)))) \<and>
         (\<not> isItemEditable pItem \<and> \<not> isItemStarted pItem \<longrightarrow>
            isActionEnabled m e iActionIndex [pItem] = False)"
  using assms
  by (simp add: isActionEnabled_def isActionEnabledT_StartOrShow toolAllowsCurrentState_def)

theorem start_powered_off_enabled_witness:
  "UIActionIndexST_M_Machine_M_StartOrShow \<in> set startOrShowActions \<and>
   isItemPoweredOff (vmOff ''vm-A'') \<and> isItemEditable (vmOff ''vm-A'') \<and>
   isActionEnabled (managerWith [vmOff ''vm-A''] False) (collaborators [] True)
     UIActionIndexST_M_Machine_M_StartOrShow [vmOff ''vm-A''] = True \<and>
   isItemPoweredOff (vmOffLocked ''vm-B'') \<and> \<not> isItemEditable (vmOffLocked ''vm-B'') \<and>
   \<not> isItemStarted (vmOffLocked ''vm-B'') \<and>
   isActionEnabled (managerWith [vmOffLocked ''vm-B''] False) (collaborators [] True)
     UIActionIndexST_M_Machine_M_StartOrShow [vmOffLocked ''vm-B''] = False"
  using start_powered_off_enabled
          [of UIActionIndexST_M_Machine_M_StartOrShow "vmOff ''vm-A''"
              "managerWith [vmOff ''vm-A''] False" "collaborators [] True"]
        start_powered_off_enabled
          [of UIActionIndexST_M_Machine_M_StartOrShow "vmOffLocked ''vm-B''"
              "managerWith [vmOffLocked ''vm-B''] False" "collaborators [] True"]
  by (simp add: startOrShowActions_def sample_defs)

text \<open>
  Claim C6, as stated, fails: with one accessible machine selected, a configuration access
  level other than null and the settings action not opened, the settings action is still
  disabled while the group definitions are being saved.
\<close>

theorem settings_enabled_counterexample:
  "length [vmOff ''vm-A''] = 1 \<and> accessible (vmOff ''vm-A'') \<and>
   configurationAccessLevel (vmOff ''vm-A'') \<noteq> ConfigurationAccessLevel_Null \<and>
   \<not> opened (m_pActionPool (managerWith [vmOff ''vm-A''] True)) UIActionIndexST_M_Machine_S_Settings \<and>
   isActionEnabled (managerWith [vmOff ''vm-A''] True) (collaborators [] True)
     UIActionIndexST_M_Machine_S_Settings [vmOff ''vm-A''] = False"
  by (simp add: isActionEnabled_def isActionEnabledT_Settings sample_defs)

text \<open>
  Claim C6, amended. The settings action is enabled exactly when the selection has size
  one, the configuration access level of the selected item is not null, the action is not
  marked opened, no group saving is in progress, and the current machine tool is not the
  snapshots tool or the current-state item is selected. The evaluator does not test the
  accessibility of the item on its own: the condition that the item is accessible can be
  added to the list exactly when inaccessible items carry the null access level.
\<close>

theorem settings_enabled_iff:
  "(isActionEnabled m e UIActionIndexST_M_Machine_S_Settings items =
     (length items = 1 \<and>
      configurationAccessLevel (hd items) \<noteq> ConfigurationAccessLevel_Null \<and>
      \<not> opened (m_pActionPool m) UIActionIndexST_M_Machine_S_Settings \<and>
      \<not> isGroupSavingInProgress (m_pWidget m) \<and>
      (currentMachineTool (m_pWidget m) \<noteq> UIToolType_Snapshots \<or>
       isCurrentStateItemSelected (m_pWidget m)))) \<and>
   ((\<forall>pItem\<in>set items. \<not> accessible pItem \<longrightarrow>
        configurationAccessLevel pItem = ConfigurationAccessLevel_Null) \<longrightarrow>
    isActionEnabled m e UIActionIndexST_M_Machine_S_Settings items =
     (length items = 1 \<and> accessible (hd items) \<and>
      configurationAccessLevel (hd items) \<noteq> ConfigurationAccessLevel_Null \<and>
      \<not> opened (m_pActionPool m) UIActionIndexST_M_Machine_S_Settings \<and>
      \<not> isGroupSavingInProgress (m_pWidget m) \<and>
      (currentMachineTool (m_pWidget m) \<noteq> UIToolType_Snapshots \<or>
       isCurrentStateItemSelected (m_pWidget m))))"
  by (cases items) (auto simp add: isActionEnabled_def isActionEnabledT_Settings toolAllowsCurrentState_def)

theorem settings_enabled_iff_witness:
  "accessible (vmOff ''vm-A'') \<and>
   isActionEnabled (managerWith [vmOff ''vm-A''] False) (collaborators [] True)
     UIActionIndexST_M_Machine_S_Settings [vmOff ''vm-A''] = True \<and>
   isActionEnabled (managerWith [vmOff ''vm-A'', vmOff ''vm-B''] False) (collaborators [] True)
     UIActionIndexST_M_Machine_S_Settings [vmOff ''vm-A'', vmOff ''vm-B''] = False"
  using settings_enabled_iff [of "managerWith [vmOff ''vm-A''] False" "collaborators [] True" "[vmOff ''vm-A'']"]
        settings_enabled_iff [of "managerWith [vmOff ''vm-A'', vmOff ''vm-B''] False" "collaborators [] True"
           "[vmOff ''vm-A'', vmOff ''vm-B'']"]
  by (simp add: sample_defs)

text \<open>
  Claim C3. If a shutdown action is enabled for a selection, then some selected item is
  started and some selected running item has a guest that entered ACPI mode, and the
  evaluation ends with the probe of that item: a session opened on the machine, the
  question to its console, the release of the session. The item record has no field for
  the ACPI answer. For one running machine whose guest has not entered ACPI mode the
  action is disabled; for one started, running machine whose session and console are
  available, the answer is the one its console gives in that probe.
\<close>

theorem shutdown_enabled_needs_acpi_probe:
  assumes "iActionIndex = UIActionIndexST_M_Group_M_Close_S_Shutdown \<or>
           iActionIndex = UIActionIndexST_M_Machine_M_Close_S_Shutdown"
  shows "(isActionEnabled m e iActionIndex items \<longrightarrow>
            (\<exists>pItem\<in>set items. isItemStarted pItem) \<and>
            (\<exists>pItem\<in>set items.
                isItemRunning pItem \<and>
                \<not> openExistingSession_isNull e (id_item pItem) \<and>
                \<not> console_isNull e (id_item pItem) \<and>
                guestEnteredACPIMode e (id_item pItem) \<and>
                (\<exists>calls. snd (isActionEnabledT m e iActionIndex items) =
                    calls @ [OpenExistingSession (id_item pItem),
                             Console_GetGuestEnteredACPIMode (id_item pItem),
                             UnlockMachine (id_item pItem)]))) \<and>
         (isItemRunning pItem \<and> \<not> guestEnteredACPIMode e (id_item pItem) \<longrightarrow>
            isActionEnabled m e iActionIndex [pItem] = False) \<and>
         (isItemStarted pItem \<and> isItemRunning pItem \<and>
          \<not> openExistingSession_isNull e (id_item pItem) \<and> \<not> console_isNull e (id_item pItem) \<longrightarrow>
            isActionEnabledT m e iActionIndex [pItem] =
              (guestEnteredACPIMode e (id_item pItem),
               [OpenExistingSession (id_item pItem),
                Console_GetGuestEnteredACPIMode (id_item pItem),
                UnlockMachine (id_item pItem)]))"
proof (intro conjI impI)
  assume en: "isActionEnabled m e iActionIndex items"
  have eq: "isActionEnabledT m e iActionIndex items =
     (if isAtLeastOneItemStarted items then isAtLeastOneItemAbleToShutdown e items
      else (False, []))"
    using assms by (rule isActionEnabledT_Shutdown)
  from en eq have st: "isAtLeastOneItemStarted items"
    by (auto simp add: isActionEnabled_def split: if_splits)
  then show "\<exists>pItem\<in>set items. isItemStarted pItem"
    by (simp add: isAtLeastOneItemStarted_iff)
  from en eq st have "fst (isAtLeastOneItemAbleToShutdown e items)"
    by (simp add: isActionEnabled_def)
  from ableToShutdown_True [OF this] eq st
  show "\<exists>pItem\<in>set items.
                isItemRunning pItem \<and>
                \<not> openExistingSession_isNull e (id_item pItem) \<and>
                \<not> console_isNull e (id_item pItem) \<and>
                guestEnteredACPIMode e (id_item pItem) \<and>
                (\<exists>calls. snd (isActionEnabledT m e iActionIndex items) =
                    calls @ [OpenExistingSession (id_item pItem),
                             Console_GetGuestEnteredACPIMode (id_item pItem),
                             UnlockMachine (id_item pItem)])"
    by simp
next
  assume "isItemRunning pItem \<and> \<not> guestEnteredACPIMode e (id_item pItem)"
  then show "isActionEnabled m e iActionIndex [pItem] = False"
    using assms by (auto simp add: isActionEnabled_def isActionEnabledT_Shutdown split: prod.splits)
next
  assume "isItemStarted pItem \<and> isItemRunning pItem \<and>
          \<not> openExistingSession_isNull e (id_item pItem) \<and> \<not> console_isNull e (id_item pItem)"
  then show "isActionEnabledT m e iActionIndex [pItem] =
              (guestEnteredACPIMode e (id_item pItem),
               [OpenExistingSession (id_item pItem),
                Console_GetGuestEnteredACPIMode (id_item pItem),
                UnlockMachine (id_item pItem)])"
    using assms by (auto simp add: isActionEnabledT_Shutdown)
qed

theorem shutdown_enabled_needs_acpi_probe_witness:
  "isItemRunning (vmRunning ''vm-A'') \<and>
   \<not> guestEnteredACPIMode ((collaborators [] True)\<lparr>guestEnteredACPIMode := (\<lambda>uId. False)\<rparr>)
       (id_item (vmRunning ''vm-A'')) \<and>
   isActionEnabled (managerWith [vmRunning ''vm-A''] False)
     ((collaborators [] True)\<lparr>guestEnteredACPIMode := (\<lambda>uId. False)\<rparr>)
     UIActionIndexST_M_Machine_M_Close_S_Shutdown [vmRunning ''vm-A''] = False \<and>
   isActionEnabled (managerWith [vmRunning ''vm-A''] False) (collaborators [] True)
     UIActionIndexST_M_Machine_M_Close_S_Shutdown [vmRunning ''vm-A''] \<and>
   isActionEnabledT (managerWith [vmRunning ''vm-A''] False) (collaborators [] True)
     UIActionIndexST_M_Machine_M_Close_S_Shutdown [vmRunning ''vm-A''] =
     (True, [OpenExistingSession ''vm-A'', Console_GetGuestEnteredACPIMode ''vm-A'',
             UnlockMachine ''vm-A''])"
  using shutdown_enabled_needs_acpi_probe
          [of UIActionIndexST_M_Machine_M_Close_S_Shutdown "managerWith [vmRunning ''vm-A''] False"
              "(collaborators [] True)\<lparr>guestEnteredACPIMode := (\<lambda>uId. False)\<rparr>"
              "[vmRunning ''vm-A'']" "vmRunning ''vm-A''"]
        shutdown_enabled_needs_acpi_probe
          [of UIActionIndexST_M_Machine_M_Close_S_Shutdown "managerWith [vmRunning ''vm-A''] False"
              "collaborators [] True" "[vmRunning ''vm-A'']" "vmRunning ''vm-A''"]
  by (simp add: isActionEnabled_def sample_defs)

section \<open>Facts about the slots\<close>

lemma itemsEnabledAlone_fst:
  "fst (itemsEnabledAlone m e iActionIndex items) =
     filter (\<lambda>pItem. isActionEnabled m e iActionIndex [pItem]) items"
  by (induction items) (auto simp add: isActionEnabled_def split: prod.splits)

lemma itemsEnabledAlone_Reset_snd:
  "snd (itemsEnabledAlone m e UIActionIndexST_M_Group_S_Reset items) = []"
  by (induction items) (auto simp add: isActionEnabledT_Reset split: prod.splits)

lemma itemsEnabledAlone_PowerOff_snd:
  "snd (itemsEnabledAlone m e UIActionIndexST_M_Machine_M_Close_S_PowerOff items) = []"
  by (induction items) (auto simp add: isActionEnabledT_PowerOff split: prod.splits)

lemma itemsEnabledAlone_Discard_snd:
  "snd (itemsEnabledAlone m e UIActionIndexST_M_Group_S_Discard items) = []"
  by (induction items) (auto simp add: isActionEnabledT_Discard split: prod.splits)

lemma ableToShutdown_probe_calls:
  "\<forall>ev\<in>set (snd (isAtLeastOneItemAbleToShutdown e items)). isProbeCall ev"
  by (induction items) (auto simp add: isProbeCall_def split: prod.splits)

lemma itemsEnabledAlone_Shutdown_probe_calls:
  "\<forall>ev\<in>set (snd (itemsEnabledAlone m e UIActionIndexST_M_Machine_M_Close_S_Shutdown items)).
     isProbeCall ev"
proof (induction items)
  case Nil
  then show ?case by simp
next
  case (Cons pItem items)
  have "\<forall>ev\<in>set (snd (isActionEnabledT m e UIActionIndexST_M_Machine_M_Close_S_Shutdown [pItem])).
     isProbeCall ev"
    using ableToShutdown_probe_calls [of e "[pItem]"]
    by (simp add: isActionEnabledT_Shutdown)
  with Cons show ?case by (auto split: prod.splits)
qed

lemma launchEach_no_confirm: "\<forall>ev\<in>set (launchEach e f enmLaunchMode items). \<not> isConfirmStart ev"
  by (induction items) (auto simp add: isConfirmStart_def)

lemma sltPerformResetMachine_eq:
  assumes "currentItems (m_pWidget m) \<noteq> []"
    and "kept = filter (\<lambda>pItem. isActionEnabled m e UIActionIndexST_M_Group_S_Reset [pItem])
                  (currentItems (m_pWidget m))"
  shows "sltPerformResetMachine m e =
           ConfirmResetMachine (join (map name_item kept) '', '') #
           (if confirmResetMachine e (join (map name_item kept) '', '') then resetEach e kept else [])"
proof -
  have "itemsEnabledAlone m e UIActionIndexST_M_Group_S_Reset (currentItems (m_pWidget m)) = (kept, [])"
    using itemsEnabledAlone_fst [of m e UIActionIndexST_M_Group_S_Reset "currentItems (m_pWidget m)"]
      itemsEnabledAlone_Reset_snd [of m e "currentItems (m_pWidget m)"] assms(2)
    by (simp add: prod_eq_iff)
  then show ?thesis
    using assms(1) by (simp add: sltPerformResetMachine_def)
qed

lemma sltPerformPowerOffMachine_eq:
  assumes "currentItems (m_pWidget m) \<noteq> []"
    and "kept = filter (\<lambda>pItem. isActionEnabled m e UIActionIndexST_M_Machine_M_Close_S_PowerOff [pItem])
                  (currentItems (m_pWidget m))"
  shows "sltPerformPowerOffMachine m e =
           ConfirmPowerOffMachine (join (map name_item kept) '', '') #
           (if confirmPowerOffMachine e (join (map name_item kept) '', '') then powerOffEach e kept else [])"
proof -
  have "itemsEnabledAlone m e UIActionIndexST_M_Machine_M_Close_S_PowerOff (currentItems (m_pWidget m)) = (kept, [])"
    using itemsEnabledAlone_fst [of m e UIActionIndexST_M_Machine_M_Close_S_PowerOff "currentItems (m_pWidget m)"]
      itemsEnabledAlone_PowerOff_snd [of m e "currentItems (m_pWidget m)"] assms(2)
    by (simp add: prod_eq_iff)
  then show ?thesis
    using assms(1) by (simp add: sltPerformPowerOffMachine_def)
qed

lemma sltPerformDiscardMachineState_eq:
  assumes "currentItems (m_pWidget m) \<noteq> []"
    and "kept = filter (\<lambda>pItem. isActionEnabled m e UIActionIndexST_M_Group_S_Discard [pItem])
                  (currentItems (m_pWidget m))"
  shows "sltPerformDiscardMachineState m e =
           ConfirmDiscardSavedState (join (map name_item kept) '', '') #
           (if confirmDiscardSavedState e (join (map name_item kept) '', '') then discardEach e kept else [])"
proof -
  have "itemsEnabledAlone m e UIActionIndexST_M_Group_S_Discard (currentItems (m_pWidget m)) = (kept, [])"
    using itemsEnabledAlone_fst [of m e UIActionIndexST_M_Group_S_Discard "currentItems (m_pWidget m)"]
      itemsEnabledAlone_Discard_snd [of m e "currentItems (m_pWidget m)"] assms(2)
    by (simp add: prod_eq_iff)
  then show ?thesis
    using assms(1) by (simp add: sltPerformDiscardMachineState_def)
qed

lemma sltPerformShutdownMachine_eq:
  assumes "currentItems (m_pWidget m) \<noteq> []"
    and "kept = filter (\<lambda>pItem. isActionEnabled m e UIActionIndexST_M_Machine_M_Close_S_Shutdown [pItem])
                  (currentItems (m_pWidget m))"
    and "probes = snd (itemsEnabledAlone m e UIActionIndexST_M_Machine_M_Close_S_Shutdown
                  (currentItems (m_pWidget m)))"
  shows "sltPerformShutdownMachine m e =
           probes @ ConfirmACPIShutdownMachine (join (map name_item kept) '', '') #
           (if confirmACPIShutdownMachine e (join (map name_item kept) '', '') then shutdownEach e kept else [])"
proof -
  have "itemsEnabledAlone m e UIActionIndexST_M_Machine_M_Close_S_Shutdown (currentItems (m_pWidget m)) = (kept, probes)"
    using itemsEnabledAlone_fst [of m e UIActionIndexST_M_Machine_M_Close_S_Shutdown "currentItems (m_pWidget m)"]
      assms(2,3)
    by (simp add: prod_eq_iff)
  then show ?thesis
    using assms(1) by (simp add: sltPerformShutdownMachine_def)
qed

lemma start_confirm_iff:
  "(\<exists>ev\<in>set (performStartOrShowVirtualMachines m e items enmLaunchMode). isConfirmStart ev) =
     (\<not> isGroupSavingInProgress (m_pWidget m) \<and> 1 < length (startableItems items))"
  using launchEach_no_confirm [of e True enmLaunchMode items]
    launchEach_no_confirm [of e "confirmStartMultipleMachines e (join (map name_item (startableItems items)) '', '')" enmLaunchMode items]
  by (auto simp add: performStartOrShowVirtualMachines_def Let_def isConfirmStart_def)

lemma itemsEnabledAlone_PowerOff:
  "itemsEnabledAlone m e UIActionIndexST_M_Machine_M_Close_S_PowerOff items =
     (filter isItemStarted items, [])"
  by (induction items) (simp_all add: isActionEnabledT_PowerOff)

lemma firstStartedAction_None:
  "\<forall>pItem\<in>set items. \<not> isItemStarted pItem \<Longrightarrow> firstStartedAction items = None"
  by (induction items) auto

lemma firstStartedAction_append:
  "\<forall>pItem\<in>set before. \<not> isItemStarted pItem \<Longrightarrow> isItemStarted pItem \<Longrightarrow>
   firstStartedAction (before @ pItem # after) = Some pItem"
  by (induction before) auto

lemma updateActionsAppearance_checked_Pause:
  "iActionIndex = UIActionIndexST_M_Group_T_Pause \<or> iActionIndex = UIActionIndexST_M_Machine_T_Pause \<Longrightarrow>
   checked (m_pActionPool (updateActionsAppearance e m)) iActionIndex =
     (case firstStartedAction (currentItems (m_pWidget m)) of
        None \<Rightarrow> False
      | Some pFirstStartedAction \<Rightarrow> isItemPaused pFirstStartedAction)"
  by (auto simp add: updateActionsAppearance_def Let_def split: UIToolType.splits)

section \<open>Claims about the slots\<close>

text \<open>
  Claim C1. The selection is \<open>[m1, m2]\<close>, the power-off action is enabled for each item
  alone, the user confirms, both sessions open, the power down of \<open>m1\<close> fails (the console
  is not ok after the call, or the progress is not ok or has a result code other than
  zero) and that of \<open>m2\<close> succeeds. Then the slot reports the failure of \<open>m1\<close>, unlocks
  \<open>m1\<close>, and goes on with \<open>m2\<close>: its session is opened, the power down is performed, the
  progress is shown, nothing is reported, and the session is released.
\<close>

theorem power_off_batch_isolation:
  assumes "currentItems (m_pWidget m) = [m1, m2]"
    and "isActionEnabled m e UIActionIndexST_M_Machine_M_Close_S_PowerOff [m1]"
    and "isActionEnabled m e UIActionIndexST_M_Machine_M_Close_S_PowerOff [m2]"
    and "confirmPowerOffMachine e (join [name_item m1, name_item m2] '', '')"
    and "\<not> openExistingSession_isNull e (id_item m1)"
    and "\<not> powerDown_isOk e (id_item m1) \<or> \<not> progress_isOk e (id_item m1) \<or>
         progress_resultCode e (id_item m1) \<noteq> 0"
    and "\<not> openExistingSession_isNull e (id_item m2)"
    and "powerDown_isOk e (id_item m2)"
    and "progress_isOk e (id_item m2)"
    and "progress_resultCode e (id_item m2) = 0"
  shows "sltPerformPowerOffMachine m e =
           [ConfirmPowerOffMachine (join [name_item m1, name_item m2] '', ''),
            OpenExistingSession (id_item m1), Console_PowerDown (id_item m1)] @
           (if powerDown_isOk e (id_item m1)
            then [ShowModalProgressDialog (id_item m1), CannotPowerDownMachine_Progress (id_item m1)]
            else [CannotPowerDownMachine_Console (id_item m1)]) @
           [UnlockMachine (id_item m1),
            OpenExistingSession (id_item m2), Console_PowerDown (id_item m2),
            ShowModalProgressDialog (id_item m2), UnlockMachine (id_item m2)]"
proof -
  have st: "isItemStarted m1" "isItemStarted m2"
    using assms(2,3) by (simp_all add: isActionEnabled_def isActionEnabledT_PowerOff split: if_splits)
  have kept: "itemsEnabledAlone m e UIActionIndexST_M_Machine_M_Close_S_PowerOff [m1, m2] = ([m1, m2], [])"
    using st by (simp only: itemsEnabledAlone_PowerOff) simp
  show ?thesis
    using assms(4-10)
    by (auto simp add: sltPerformPowerOffMachine_def assms(1) kept
          simp del: itemsEnabledAlone.simps)
qed

theorem power_off_batch_isolation_witness:
  "sltPerformPowerOffMachine (managerWith [vmRunning ''vm-A'', vmPaused ''vm-B''] False)
     (collaborators [''vm-A''] True) =
     [ConfirmPowerOffMachine ''vm-A, vm-B'',
      OpenExistingSession ''vm-A'', Console_PowerDown ''vm-A'', CannotPowerDownMachine_Console ''vm-A'',
      UnlockMachine ''vm-A'',
      OpenExistingSession ''vm-B'', Console_PowerDown ''vm-B'', ShowModalProgressDialog ''vm-B'',
      UnlockMachine ''vm-B'']"
  using power_off_batch_isolation
          [of "managerWith [vmRunning ''vm-A'', vmPaused ''vm-B''] False"
              "vmRunning ''vm-A''" "vmPaused ''vm-B''" "collaborators [''vm-A''] True"]
  by (simp add: isActionEnabled_def isActionEnabledT_PowerOff sample_defs)

text \<open>
  Claim C2. Two items are passed to the start routine, the start action is enabled for each
  alone, and each is to be started (powered off and editable) rather than shown. Then the
  routine asks the user once, before any machine is launched; when the user declines,
  nothing else is called; when the user agrees, the two machines are launched in order.
\<close>

theorem start_confirmation_gating:
  assumes "isActionEnabled m e UIActionIndexST_M_Machine_M_StartOrShow [m1]"
    and "isActionEnabled m e UIActionIndexST_M_Machine_M_StartOrShow [m2]"
    and "isAtLeastOneItemCanBeStarted [m1]" and "\<not> isItemStarted m1"
    and "isAtLeastOneItemCanBeStarted [m2]" and "\<not> isItemStarted m2"
  shows "performStartOrShowVirtualMachines m e [m1, m2] enmLaunchMode =
           ConfirmStartMultipleMachines (join [name_item m1, name_item m2] '', '') #
           (if confirmStartMultipleMachines e (join [name_item m1, name_item m2] '', '')
            then [LaunchMachine (id_item m1) (itemLaunchMode e enmLaunchMode m1),
                  LaunchMachine (id_item m2) (itemLaunchMode e enmLaunchMode m2)]
            else []) \<and>
         length (filter isConfirmStart
                   (performStartOrShowVirtualMachines m e [m1, m2] enmLaunchMode)) = 1"
proof -
  have gs: "\<not> isGroupSavingInProgress (m_pWidget m)"
    using assms(1)
    by (simp add: isActionEnabled_def isActionEnabledT_StartOrShow startOrShowActions_def)
  have eq: "performStartOrShowVirtualMachines m e [m1, m2] enmLaunchMode =
           ConfirmStartMultipleMachines (join [name_item m1, name_item m2] '', '') #
           (if confirmStartMultipleMachines e (join [name_item m1, name_item m2] '', '')
            then [LaunchMachine (id_item m1) (itemLaunchMode e enmLaunchMode m1),
                  LaunchMachine (id_item m2) (itemLaunchMode e enmLaunchMode m2)]
            else [])"
    using gs assms(3-6) by (simp add: performStartOrShowVirtualMachines_def split: if_splits)
  show ?thesis
    unfolding eq by (simp add: isConfirmStart_def)
qed

theorem start_confirmation_gating_witness:
  "performStartOrShowVirtualMachines (managerWith [vmOff ''vm-A'', vmOff ''vm-B''] False)
     (collaborators [] False) [vmOff ''vm-A'', vmOff ''vm-B''] LaunchMode_Default =
     [ConfirmStartMultipleMachines ''vm-A, vm-B''] \<and>
   performStartOrShowVirtualMachines (managerWith [vmOff ''vm-A'', vmOff ''vm-B''] False)
     (collaborators [] True) [vmOff ''vm-A'', vmOff ''vm-B''] LaunchMode_Default =
     [ConfirmStartMultipleMachines ''vm-A, vm-B'',
      LaunchMachine ''vm-A'' LaunchMode_Default, LaunchMachine ''vm-B'' LaunchMode_Default]"
  using start_confirmation_gating
          [of "managerWith [vmOff ''vm-A'', vmOff ''vm-B''] False" "collaborators [] False"
              "vmOff ''vm-A''" "vmOff ''vm-B''" LaunchMode_Default]
        start_confirmation_gating
          [of "managerWith [vmOff ''vm-A'', vmOff ''vm-B''] False" "collaborators [] True"
              "vmOff ''vm-A''" "vmOff ''vm-B''" LaunchMode_Default]
  by (simp add: isActionEnabled_def isActionEnabledT_StartOrShow startOrShowActions_def
        toolAllowsCurrentState_def itemLaunchMode_def sample_defs)

text \<open>
  Claim C7, as stated, fails for the shutdown slot: with one running machine selected, the
  shutdown action enabled for it and the user declining, a session on the machine has been
  opened all the same, by the probe of the evaluator that selects the items.
\<close>

theorem batch_confirmation_counterexample:
  "fst (itemsEnabledAlone (managerWith [vmRunning ''vm-A''] False) (collaborators [] False)
          UIActionIndexST_M_Machine_M_Close_S_Shutdown [vmRunning ''vm-A'']) = [vmRunning ''vm-A''] \<and>
   confirmACPIShutdownMachine (collaborators [] False) ''vm-A'' = False \<and>
   sltPerformShutdownMachine (managerWith [vmRunning ''vm-A''] False) (collaborators [] False) =
     [OpenExistingSession ''vm-A'', Console_GetGuestEnteredACPIMode ''vm-A'', UnlockMachine ''vm-A'',
      ConfirmACPIShutdownMachine ''vm-A'']"
  by (simp add: sltPerformShutdownMachine_def isActionEnabledT_Shutdown sample_defs)

text \<open>
  Claim C7, amended. For a selection that is not empty, the reset, power-off and discard
  slots ask the user first, whatever the number of items the action is enabled for (one
  included), and call nothing else when the user declines. The shutdown slot asks the user
  in the same way and calls nothing after a declined question; the calls before the
  question are those of the ACPI probes made while the items are selected. The start
  routine asks the user exactly when no group saving is in progress and more than one
  item is startable.
\<close>

theorem batch_confirmation_whatever_the_size:
  assumes "currentItems (m_pWidget m) = items" and "items \<noteq> []"
    and "toReset = filter (\<lambda>pItem. isActionEnabled m e UIActionIndexST_M_Group_S_Reset [pItem]) items"
    and "toPowerOff =
           filter (\<lambda>pItem. isActionEnabled m e UIActionIndexST_M_Machine_M_Close_S_PowerOff [pItem]) items"
    and "toDiscard = filter (\<lambda>pItem. isActionEnabled m e UIActionIndexST_M_Group_S_Discard [pItem]) items"
    and "toShutdown =
           filter (\<lambda>pItem. isActionEnabled m e UIActionIndexST_M_Machine_M_Close_S_Shutdown [pItem]) items"
    and "probes = snd (itemsEnabledAlone m e UIActionIndexST_M_Machine_M_Close_S_Shutdown items)"
  shows "sltPerformResetMachine m e =
           ConfirmResetMachine (join (map name_item toReset) '', '') #
           (if confirmResetMachine e (join (map name_item toReset) '', '')
            then resetEach e toReset else []) \<and>
         sltPerformPowerOffMachine m e =
           ConfirmPowerOffMachine (join (map name_item toPowerOff) '', '') #
           (if confirmPowerOffMachine e (join (map name_item toPowerOff) '', '')
            then powerOffEach e toPowerOff else []) \<and>
         sltPerformDiscardMachineState m e =
           ConfirmDiscardSavedState (join (map name_item toDiscard) '', '') #
           (if confirmDiscardSavedState e (join (map name_item toDiscard) '', '')
            then discardEach e toDiscard else []) \<and>
         sltPerformShutdownMachine m e =
           probes @ ConfirmACPIShutdownMachine (join (map name_item toShutdown) '', '') #
           (if confirmACPIShutdownMachine e (join (map name_item toShutdown) '', '')
            then shutdownEach e toShutdown else []) \<and>
         (\<forall>ev\<in>set probes. isProbeCall ev) \<and>
         (\<exists>ev\<in>set (performStartOrShowVirtualMachines m e items enmLaunchMode). isConfirmStart ev) =
           (\<not> isGroupSavingInProgress (m_pWidget m) \<and> 1 < length (startableItems items))"
proof (intro conjI)
  have ne: "currentItems (m_pWidget m) \<noteq> []" using assms(1,2) by simp
  show "sltPerformResetMachine m e =
           ConfirmResetMachine (join (map name_item toReset) '', '') #
           (if confirmResetMachine e (join (map name_item toReset) '', '')
            then resetEach e toReset else [])"
    using sltPerformResetMachine_eq [OF ne] assms(1,3) by simp
  show "sltPerformPowerOffMachine m e =
           ConfirmPowerOffMachine (join (map name_item toPowerOff) '', '') #
           (if confirmPowerOffMachine e (join (map name_item toPowerOff) '', '')
            then powerOffEach e toPowerOff else [])"
    using sltPerformPowerOffMachine_eq [OF ne] assms(1,4) by simp
  show "sltPerformDiscardMachineState m e =
           ConfirmDiscardSavedState (join (map name_item toDiscard) '', '') #
           (if confirmDiscardSavedState e (join (map name_item toDiscard) '', '')
            then discardEach e toDiscard else [])"
    using sltPerformDiscardMachineState_eq [OF ne] assms(1,5) by simp
  show "sltPerformShutdownMachine m e =
           probes @ ConfirmACPIShutdownMachine (join (map name_item toShutdown) '', '') #
           (if confirmACPIShutdownMachine e (join (map name_item toShutdown) '', '')
            then shutdownEach e toShutdown else [])"
    using sltPerformShutdownMachine_eq [OF ne] assms(1,6,7) by simp
  show "\<forall>ev\<in>set probes. isProbeCall ev"
    unfolding assms(7) by (rule itemsEnabledAlone_Shutdown_probe_calls)
  show "(\<exists>ev\<in>set (performStartOrShowVirtualMachines m e items enmLaunchMode). isConfirmStart ev) =
           (\<not> isGroupSavingInProgress (m_pWidget m) \<and> 1 < length (startableItems items))"
    by (rule start_confirm_iff)
qed

theorem batch_confirmation_whatever_the_size_witness:
  "sltPerformResetMachine
     (managerWith [vmRunning ''vm-A'', vmSaved ''vm-B'', vmOff ''vm-C''] False)
     (collaborators [] False) =
     [ConfirmResetMachine ''vm-A''] \<and>
   sltPerformPowerOffMachine
     (managerWith [vmRunning ''vm-A'', vmSaved ''vm-B'', vmOff ''vm-C''] False)
     (collaborators [] False) =
     [ConfirmPowerOffMachine ''vm-A''] \<and>
   sltPerformDiscardMachineState
     (managerWith [vmRunning ''vm-A'', vmSaved ''vm-B'', vmOff ''vm-C''] False)
     (collaborators [] False) =
     [ConfirmDiscardSavedState ''vm-B''] \<and>
   sltPerformShutdownMachine
     (managerWith [vmRunning ''vm-A'', vmSaved ''vm-B'', vmOff ''vm-C''] False)
     (collaborators [] False) =
     [OpenExistingSession ''vm-A'', Console_GetGuestEnteredACPIMode ''vm-A'', UnlockMachine ''vm-A'',
      ConfirmACPIShutdownMachine ''vm-A''] \<and>
   performStartOrShowVirtualMachines
     (managerWith [vmRunning ''vm-A'', vmSaved ''vm-B'', vmOff ''vm-C''] False)
     (collaborators [] False) [vmRunning ''vm-A'', vmSaved ''vm-B'', vmOff ''vm-C'']
     LaunchMode_Default =
     [LaunchMachine ''vm-C'' LaunchMode_Default]"
  using batch_confirmation_whatever_the_size
          [of "managerWith [vmRunning ''vm-A'', vmSaved ''vm-B'', vmOff ''vm-C''] False"
              "[vmRunning ''vm-A'', vmSaved ''vm-B'', vmOff ''vm-C'']" _ "collaborators [] False"
              _ _ _ _ LaunchMode_Default,
           OF _ _ refl refl refl refl refl]
  by (simp add: isActionEnabled_def isActionEnabledT_Reset isActionEnabledT_PowerOff
        isActionEnabledT_Discard isActionEnabledT_Shutdown performStartOrShowVirtualMachines_def
        itemLaunchMode_def toolAllowsCurrentState_def sample_defs)

text \<open>
  Claim C9. After the appearance update, each of the two pause toggles is unchecked when
  no selected item is started; otherwise it shows whether the first started item of the
  selection is paused, whatever the items after it are.
\<close>

theorem pause_toggle_follows_first_started_item:
  assumes "iActionIndex = UIActionIndexST_M_Group_T_Pause \<or>
           iActionIndex = UIActionIndexST_M_Machine_T_Pause"
  shows "((\<forall>pItem\<in>set (currentItems (m_pWidget m)). \<not> isItemStarted pItem) \<longrightarrow>
            checked (m_pActionPool (updateActionsAppearance e m)) iActionIndex = False) \<and>
         (currentItems (m_pWidget m) = before @ pItem # after \<and>
          (\<forall>pEarlier\<in>set before. \<not> isItemStarted pEarlier) \<and> isItemStarted pItem \<longrightarrow>
            checked (m_pActionPool (updateActionsAppearance e m)) iActionIndex = isItemPaused pItem)"
  using assms
  by (auto simp add: updateActionsAppearance_checked_Pause firstStartedAction_None
        firstStartedAction_append)

theorem pause_toggle_follows_first_started_item_witness:
  "checked (m_pActionPool (updateActionsAppearance (collaborators [] True)
      (managerWith [vmOff ''vm-A'', vmPaused ''vm-B'', vmRunning ''vm-C''] False)))
      UIActionIndexST_M_Machine_T_Pause = True \<and>
   checked (m_pActionPool (updateActionsAppearance (collaborators [] True)
      (managerWith [vmOff ''vm-A'', vmRunning ''vm-C'', vmPaused ''vm-B''] False)))
      UIActionIndexST_M_Machine_T_Pause = False \<and>
   checked (m_pActionPool (updateActionsAppearance (collaborators [] True)
      (managerWith [vmOff ''vm-A''] False)))
      UIActionIndexST_M_Machine_T_Pause = False"
  using pause_toggle_follows_first_started_item
          [of UIActionIndexST_M_Machine_T_Pause
              "managerWith [vmOff ''vm-A'', vmPaused ''vm-B'', vmRunning ''vm-C''] False"
              "collaborators [] True" "[vmOff ''vm-A'']" "vmPaused ''vm-B''" "[vmRunning ''vm-C'']"]
        pause_toggle_follows_first_started_item
          [of UIActionIndexST_M_Machine_T_Pause
              "managerWith [vmOff ''vm-A'', vmRunning ''vm-C'', vmPaused ''vm-B''] False"
              "collaborators [] True" "[vmOff ''vm-A'']" "vmRunning ''vm-C''" "[vmPaused ''vm-B'']"]
        pause_toggle_follows_first_started_item
          [of UIActionIndexST_M_Machine_T_Pause "managerWith [vmOff ''vm-A''] False"
              "collaborators [] True"]
  by (simp add: sample_defs)

section \<open>Pausing and resuming\<close>

lemma pauseOrResumeEach_calls:
  "ev \<in> set (pauseOrResumeEach m e fPause items) \<Longrightarrow>
   \<exists>pItem\<in>set items. machineOf ev = Some (id_item pItem) \<and>
      \<not> (fPause \<and> (machineState pItem = KMachineState_Paused \<or>
                    machineState pItem = KMachineState_TeleportingPausedVM)) \<and>
      \<not> (\<not> fPause \<and> (machineState pItem = KMachineState_Running \<or>
                      machineState pItem = KMachineState_Teleporting \<or>
                      machineState pItem = KMachineState_LiveSnapshotting))"
proof (induction items)
  case Nil
  then show ?case by simp
next
  case (Cons pItem items)
  then show ?case
    by (auto simp add: isActionEnabledT_Pause machineOf_def Let_def split: if_splits)
qed

lemma pauseOrResumeEach_skip_paused:
  "pauseOrResumeEach m e True items =
     pauseOrResumeEach m e True
       (filter (\<lambda>pItem. machineState pItem \<noteq> KMachineState_Paused \<and>
                        machineState pItem \<noteq> KMachineState_TeleportingPausedVM) items)"
  by (induction items) (simp_all add: isActionEnabledT_Pause Let_def)

lemma pauseOrResumeEach_skip_running:
  "pauseOrResumeEach m e False items =
     pauseOrResumeEach m e False
       (filter (\<lambda>pItem. machineState pItem \<noteq> KMachineState_Running \<and>
                        machineState pItem \<noteq> KMachineState_Teleporting \<and>
                        machineState pItem \<noteq> KMachineState_LiveSnapshotting) items)"
  by (induction items) (simp_all add: isActionEnabledT_Pause Let_def)

lemma sltPerformPauseOrResumeMachine_calls:
  assumes "ev \<in> set (sltPerformPauseOrResumeMachine m e fPause)"
  shows "ev \<in> set (pauseOrResumeEach m e fPause (currentItems (m_pWidget m)))"
  using assms by (simp add: sltPerformPauseOrResumeMachine_def Let_def split: if_splits)

text \<open>
  Claim C10. The selected machines are distinct. While the selection is paused, no call is
  made on an item whose state is paused or teleporting-paused: no session is opened on
  it, its console is not called, nothing is reported about it. While the selection is
  resumed, the same holds for an item whose state is running, teleporting or
  live-snapshotting. The calls of the slot are those it makes for the selection without
  these items.
\<close>

theorem pause_resume_skips_items_already_there:
  assumes "distinct (map id_item (currentItems (m_pWidget m)))"
    and "pItem \<in> set (currentItems (m_pWidget m))"
  shows "(machineState pItem = KMachineState_Paused \<or>
          machineState pItem = KMachineState_TeleportingPausedVM \<longrightarrow>
            (\<forall>ev\<in>set (sltPerformPauseOrResumeMachine m e True).
                machineOf ev \<noteq> Some (id_item pItem))) \<and>
         (machineState pItem = KMachineState_Running \<or>
          machineState pItem = KMachineState_Teleporting \<or>
          machineState pItem = KMachineState_LiveSnapshotting \<longrightarrow>
            (\<forall>ev\<in>set (sltPerformPauseOrResumeMachine m e False).
                machineOf ev \<noteq> Some (id_item pItem))) \<and>
         sltPerformPauseOrResumeMachine m e True =
           pauseOrResumeEach m e True
             (filter (\<lambda>pItem. machineState pItem \<noteq> KMachineState_Paused \<and>
                              machineState pItem \<noteq> KMachineState_TeleportingPausedVM)
                (currentItems (m_pWidget m))) \<and>
         sltPerformPauseOrResumeMachine m e False =
           pauseOrResumeEach m e False
             (filter (\<lambda>pItem. machineState pItem \<noteq> KMachineState_Running \<and>
                              machineState pItem \<noteq> KMachineState_Teleporting \<and>
                              machineState pItem \<noteq> KMachineState_LiveSnapshotting)
                (currentItems (m_pWidget m)))"
proof (intro conjI impI ballI)
  have inj: "\<And>q. q \<in> set (currentItems (m_pWidget m)) \<Longrightarrow> id_item q = id_item pItem \<Longrightarrow> q = pItem"
    using assms by (meson distinct_map inj_onD)
  {
    fix ev
    assume st: "machineState pItem = KMachineState_Paused \<or>
          machineState pItem = KMachineState_TeleportingPausedVM"
      and ev: "ev \<in> set (sltPerformPauseOrResumeMachine m e True)"
    show "machineOf ev \<noteq> Some (id_item pItem)"
    proof
      assume eq: "machineOf ev = Some (id_item pItem)"
      from pauseOrResumeEach_calls [OF sltPerformPauseOrResumeMachine_calls [OF ev]]
      obtain q where q: "q \<in> set (currentItems (m_pWidget m))" "machineOf ev = Some (id_item q)"
        "\<not> (machineState q = KMachineState_Paused \<or> machineState q = KMachineState_TeleportingPausedVM)"
        by auto
      from q(2) eq have "id_item q = id_item pItem" by simp
      from inj [OF q(1) this] q(3) st show False by simp
    qed
  }
  {
    fix ev
    assume st: "machineState pItem = KMachineState_Running \<or>
          machineState pItem = KMachineState_Teleporting \<or>
          machineState pItem = KMachineState_LiveSnapshotting"
      and ev: "ev \<in> set (sltPerformPauseOrResumeMachine m e False)"
    show "machineOf ev \<noteq> Some (id_item pItem)"
    proof
      assume eq: "machineOf ev = Some (id_item pItem)"
      from pauseOrResumeEach_calls [OF sltPerformPauseOrResumeMachine_calls [OF ev]]
      obtain q where q: "q \<in> set (currentItems (m_pWidget m))" "machineOf ev = Some (id_item q)"
        "\<not> (machineState q = KMachineState_Running \<or> machineState q = KMachineState_Teleporting \<or>
            machineState q = KMachineState_LiveSnapshotting)"
        by auto
      from q(2) eq have "id_item q = id_item pItem" by simp
      from inj [OF q(1) this] q(3) st show False by simp
    qed
  }
  show "sltPerformPauseOrResumeMachine m e True =
           pauseOrResumeEach m e True
             (filter (\<lambda>pItem. machineState pItem \<noteq> KMachineState_Paused \<and>
                              machineState pItem \<noteq> KMachineState_TeleportingPausedVM)
                (currentItems (m_pWidget m)))"
    using pauseOrResumeEach_skip_paused [of m e "currentItems (m_pWidget m)"]
    by (simp add: sltPerformPauseOrResumeMachine_def Let_def)
  show "sltPerformPauseOrResumeMachine m e False =
           pauseOrResumeEach m e False
             (filter (\<lambda>pItem. machineState pItem \<noteq> KMachineState_Running \<and>
                              machineState pItem \<noteq> KMachineState_Teleporting \<and>
                              machineState pItem \<noteq> KMachineState_LiveSnapshotting)
                (currentItems (m_pWidget m)))"
    using pauseOrResumeEach_skip_running [of m e "currentItems (m_pWidget m)"]
    by (simp add: sltPerformPauseOrResumeMachine_def Let_def)
qed

theorem pause_resume_skips_items_already_there_witness:
  "distinct (map id_item [vmPaused ''vm-A'', vmRunning ''vm-B'']) \<and>
   machineState (vmPaused ''vm-A'') = KMachineState_Paused \<and>
   machineState (vmRunning ''vm-B'') = KMachineState_Running \<and>
   sltPerformPauseOrResumeMachine (managerWith [vmPaused ''vm-A'', vmRunning ''vm-B''] False)
     (collaborators [] True) True =
     [OpenExistingSession ''vm-B'', Console_Pause ''vm-B'', UnlockMachine ''vm-B''] \<and>
   sltPerformPauseOrResumeMachine (managerWith [vmPaused ''vm-A'', vmRunning ''vm-B''] False)
     (collaborators [] True) False =
     [OpenExistingSession ''vm-A'', Console_Resume ''vm-A'', UnlockMachine ''vm-A'']"
  using pause_resume_skips_items_already_there
          [of "managerWith [vmPaused ''vm-A'', vmRunning ''vm-B''] False" "vmPaused ''vm-A''"
              "collaborators [] True"]
        pause_resume_skips_items_already_there
          [of "managerWith [vmPaused ''vm-A'', vmRunning ''vm-B''] False" "vmRunning ''vm-B''"
              "collaborators [] True"]
  by (simp add: isActionEnabledT_Pause sample_defs)

section \<open>The lock around a modal sub-flow\<close>

lemma updateActionsAppearance_opened [simp]:
  "opened (m_pActionPool (updateActionsAppearance e m)) = opened (m_pActionPool m)"
  by (simp add: updateActionsAppearance_def Let_def split: UIToolType.splits)

lemma updateActionsAppearance_widget [simp]:
  "m_pWidget (updateActionsAppearance e m) = m_pWidget m"
  by (simp add: updateActionsAppearance_def Let_def)

lemma updateActionsAppearance_enabled:
  "iActionIndex \<in> set updatedActions \<Longrightarrow>
   enabled (m_pActionPool (updateActionsAppearance e m)) iActionIndex =
     isActionEnabled m e iActionIndex (currentItems (m_pWidget m))"
  by (simp add: updateActionsAppearance_def Let_def split: UIToolType.splits)

lemma updateActionsAppearance_enabled_other:
  "iActionIndex \<notin> set updatedActions \<Longrightarrow>
   enabled (m_pActionPool (updateActionsAppearance e m)) iActionIndex =
     enabled (m_pActionPool m) iActionIndex"
  by (simp add: updateActionsAppearance_def Let_def split: UIToolType.splits)

lemma setOpened_opened [simp]:
  "opened (m_pActionPool (setOpened iActionIndex f m)) = (opened (m_pActionPool m))(iActionIndex := f)"
  by (simp add: setOpened_def)

lemma setOpened_enabled [simp]:
  "enabled (m_pActionPool (setOpened iActionIndex f m)) = enabled (m_pActionPool m)"
  by (simp add: setOpened_def)

lemma setOpened_widget [simp]: "m_pWidget (setOpened iActionIndex f m) = m_pWidget m"
  by (simp add: setOpened_def)

lemma isActionEnabled_opened:
  assumes "opened (m_pActionPool m) iActionIndex"
    and "iActionIndex = UIActionIndex_M_Application_S_Preferences \<or>
         iActionIndex = UIActionIndexST_M_File_S_ExportAppliance \<or>
         iActionIndex = UIActionIndexST_M_File_S_ImportAppliance \<or>
         iActionIndex = UIActionIndexST_M_Welcome_S_Add \<or>
         iActionIndex = UIActionIndexST_M_Machine_S_Settings"
  shows "isActionEnabled m e iActionIndex items = False"
proof (cases "iActionIndex = UIActionIndexST_M_Machine_S_Settings")
  case True
  then show ?thesis using assms(1) by (simp add: isActionEnabled_def isActionEnabledT_Settings)
next
  case False
  with assms(2) have "isActionEnabledT m e iActionIndex items = (\<not> opened (m_pActionPool m) iActionIndex, [])"
    by (intro isActionEnabledT_global) simp
  then show ?thesis using assms(1) by (simp add: isActionEnabled_def)
qed

lemma lockedFor_after_update:
  assumes "opened (m_pActionPool m) iActionIndex"
    and "iActionIndex = UIActionIndex_M_Application_S_Preferences \<or>
         iActionIndex = UIActionIndexST_M_File_S_ExportAppliance \<or>
         iActionIndex = UIActionIndexST_M_File_S_ImportAppliance \<or>
         iActionIndex = UIActionIndexST_M_Welcome_S_Add \<or>
         iActionIndex = UIActionIndexST_M_Machine_S_Settings"
  shows "lockedFor iActionIndex (updateActionsAppearance e m)"
proof -
  have "iActionIndex \<in> set updatedActions"
    using assms(2) by (auto simp add: updatedActions_def)
  then show ?thesis
    using assms isActionEnabled_opened [OF assms]
    by (simp add: lockedFor_def updateActionsAppearance_enabled)
qed

lemma lockedFor_handled [simp]:
  "lockedFor iActionIndex (m\<lparr>m_fFirstMediumEnumerationHandled := f\<rparr>) = lockedFor iActionIndex m"
  by (simp add: lockedFor_def)

lemma isActionEnabledT_no_items_no_calls: "snd (isActionEnabledT m e iActionIndex []) = []"
  by (simp add: isActionEnabledT.simps)

lemma updateActionsAppearance_calls_no_items:
  "currentItems (m_pWidget m) = [] \<Longrightarrow> updateActionsAppearance_calls e m = []"
  by (simp add: updateActionsAppearance_calls_def isActionEnabledT_no_items_no_calls)

text \<open>
  With one running machine selected, each of the two appearance updates of a slot runs the
  shutdown probe twice, once for the group action and once for the machine action; the
  sub-flow is entered between them.
\<close>

lemma sltOpenAddMachineDialog_calls_running_machine:
  "snd (sltOpenAddMachineDialog dialogsReturning (collaborators [] True) []
          (managerWith [vmRunning ''vm-A''] False)) =
     [OpenExistingSession ''vm-A'', Console_GetGuestEnteredACPIMode ''vm-A'', UnlockMachine ''vm-A'',
      OpenExistingSession ''vm-A'', Console_GetGuestEnteredACPIMode ''vm-A'', UnlockMachine ''vm-A'',
      FileDialog_getOpenFileNames,
      OpenExistingSession ''vm-A'', Console_GetGuestEnteredACPIMode ''vm-A'', UnlockMachine ''vm-A'',
      OpenExistingSession ''vm-A'', Console_GetGuestEnteredACPIMode ''vm-A'', UnlockMachine ''vm-A'']"
  by (simp add: sltOpenAddMachineDialog_def Let_def dialogsReturning_def collaborators_def
        updateActionsAppearance_calls_def updatedActions_def isActionEnabledT.simps
        managerWith_def vmRunning_def machineItem_def)

lemma sltOpenMachineSettingsDialog_calls_running_machine:
  "snd (sltOpenMachineSettingsDialog dialogsReturning (collaborators [] True) [] [] None
          (managerWith [vmRunning ''vm-A''] False)) =
     [OpenExistingSession ''vm-A'', Console_GetGuestEnteredACPIMode ''vm-A'', UnlockMachine ''vm-A'',
      OpenExistingSession ''vm-A'', Console_GetGuestEnteredACPIMode ''vm-A'', UnlockMachine ''vm-A'',
      SettingsDialogMachine_execute ''vm-A'' [] [],
      OpenExistingSession ''vm-A'', Console_GetGuestEnteredACPIMode ''vm-A'', UnlockMachine ''vm-A'',
      OpenExistingSession ''vm-A'', Console_GetGuestEnteredACPIMode ''vm-A'', UnlockMachine ''vm-A'']"
  by (simp add: sltOpenMachineSettingsDialog_def Let_def dialogsReturning_def collaborators_def
        updateActionsAppearance_calls_def updatedActions_def isActionEnabledT.simps
        managerWith_def vmRunning_def machineItem_def)

text \<open>
  For the actions a slot marks, the lock holds: the sub-flow is entered in a manager where
  the action is marked opened and shown disabled, the result of the slot is what the
  sub-flow returns there with the mark cleared, and the evaluator disables a marked
  action. The export slot marks both actions connected to it.
\<close>

lemma import_enters_locked:
  "\<exists>m1. lockedFor UIActionIndexST_M_File_S_ImportAppliance m1 \<and>
     (\<forall>d. strFileName = [] \<or>
           importApp_isValid d (if VBOX_WS_MAC e then darwinResolveAlias e strFileName else strFileName) \<longrightarrow>
        WizardImportApp_exec (if VBOX_WS_MAC e then darwinResolveAlias e strFileName else strFileName)
          \<in> set (snd (sltOpenImportApplianceWizard d e strFileName m)) \<and>
        fst (sltOpenImportApplianceWizard d e strFileName m) =
          map_option
            (\<lambda>m2. updateActionsAppearance e (setOpened UIActionIndexST_M_File_S_ImportAppliance False m2))
            (importApp_exec d (if VBOX_WS_MAC e then darwinResolveAlias e strFileName else strFileName) m1))"
proof -
  let ?m1 = "updateActionsAppearance e (setOpened UIActionIndexST_M_File_S_ImportAppliance True m)"
  have "lockedFor UIActionIndexST_M_File_S_ImportAppliance ?m1"
    by (rule lockedFor_after_update) simp_all
  moreover have "\<forall>d. strFileName = [] \<or>
           importApp_isValid d (if VBOX_WS_MAC e then darwinResolveAlias e strFileName else strFileName) \<longrightarrow>
        WizardImportApp_exec (if VBOX_WS_MAC e then darwinResolveAlias e strFileName else strFileName)
          \<in> set (snd (sltOpenImportApplianceWizard d e strFileName m)) \<and>
        fst (sltOpenImportApplianceWizard d e strFileName m) =
          map_option
            (\<lambda>m2. updateActionsAppearance e (setOpened UIActionIndexST_M_File_S_ImportAppliance False m2))
            (importApp_exec d (if VBOX_WS_MAC e then darwinResolveAlias e strFileName else strFileName) ?m1)"
    by (auto simp add: sltOpenImportApplianceWizard_def Let_def split: option.splits)
  ultimately show ?thesis by blast
qed

lemma import_exit_unlocked:
  "fst (sltOpenImportApplianceWizard d e strFileName m) = Some m' \<Longrightarrow>
   \<not> opened (m_pActionPool m') UIActionIndexST_M_File_S_ImportAppliance"
  by (auto simp add: sltOpenImportApplianceWizard_def Let_def split: option.splits if_splits)

lemma export_locks_every_action_connected:
  "\<exists>m1. (\<forall>iActionIndex\<in>set exportApplianceActions. opened (m_pActionPool m1) iActionIndex) \<and>
     lockedFor UIActionIndexST_M_File_S_ExportAppliance m1 \<and>
     (\<forall>d. WizardExportApp_exec (map name_item (currentItems (m_pWidget m)))
             (sender = Some UIActionIndexST_M_Machine_S_ExportToOCI)
             \<in> set (snd (sltOpenExportApplianceWizard d e sender m)) \<and>
          fst (sltOpenExportApplianceWizard d e sender m) =
            map_option
              (\<lambda>m2. updateActionsAppearance e
                      (setOpened UIActionIndexST_M_Machine_S_ExportToOCI False
                         (setOpened UIActionIndexST_M_File_S_ExportAppliance False m2)))
              (exportApp_exec d (map name_item (currentItems (m_pWidget m)))
                 (sender = Some UIActionIndexST_M_Machine_S_ExportToOCI) m1))"
proof -
  let ?m1 = "updateActionsAppearance e
               (setOpened UIActionIndexST_M_Machine_S_ExportToOCI True
                  (setOpened UIActionIndexST_M_File_S_ExportAppliance True m))"
  have "lockedFor UIActionIndexST_M_File_S_ExportAppliance ?m1"
    by (rule lockedFor_after_update) simp_all
  moreover have "\<forall>iActionIndex\<in>set exportApplianceActions. opened (m_pActionPool ?m1) iActionIndex"
    by (simp add: exportApplianceActions_def)
  moreover have "\<forall>d. WizardExportApp_exec (map name_item (currentItems (m_pWidget m)))
             (sender = Some UIActionIndexST_M_Machine_S_ExportToOCI)
             \<in> set (snd (sltOpenExportApplianceWizard d e sender m)) \<and>
          fst (sltOpenExportApplianceWizard d e sender m) =
            map_option
              (\<lambda>m2. updateActionsAppearance e
                      (setOpened UIActionIndexST_M_Machine_S_ExportToOCI False
                         (setOpened UIActionIndexST_M_File_S_ExportAppliance False m2)))
              (exportApp_exec d (map name_item (currentItems (m_pWidget m)))
                 (sender = Some UIActionIndexST_M_Machine_S_ExportToOCI) ?m1)"
    by (auto simp add: sltOpenExportApplianceWizard_def Let_def split: option.splits)
  ultimately show ?thesis by blast
qed

lemma export_exit_unlocked:
  "fst (sltOpenExportApplianceWizard d e sender m) = Some m' \<Longrightarrow>
   \<forall>iActionIndex\<in>set exportApplianceActions. \<not> opened (m_pActionPool m') iActionIndex"
  by (auto simp add: sltOpenExportApplianceWizard_def exportApplianceActions_def Let_def
        split: option.splits)

lemma preferences_enters_locked:
  "\<exists>m1. lockedFor UIActionIndex_M_Application_S_Preferences m1 \<and>
     (\<forall>d. SettingsDialogGlobal_execute \<in> set (snd (sltOpenPreferencesDialog d e m)) \<and>
          fst (sltOpenPreferencesDialog d e m) =
            map_option
              (\<lambda>m2. updateActionsAppearance e
                      (setOpened UIActionIndex_M_Application_S_Preferences False m2))
              (settingsGlobal_execute d m1))"
proof -
  let ?m1 = "updateActionsAppearance e
               (setOpened UIActionIndex_M_Application_S_Preferences True
                  (m\<lparr>m_fFirstMediumEnumerationHandled := True\<rparr>))"
  have "lockedFor UIActionIndex_M_Application_S_Preferences ?m1"
    by (rule lockedFor_after_update) simp_all
  moreover have "\<forall>d. SettingsDialogGlobal_execute \<in> set (snd (sltOpenPreferencesDialog d e m)) \<and>
          fst (sltOpenPreferencesDialog d e m) =
            map_option
              (\<lambda>m2. updateActionsAppearance e
                      (setOpened UIActionIndex_M_Application_S_Preferences False m2))
              (settingsGlobal_execute d ?m1)"
    by (auto simp add: sltOpenPreferencesDialog_def Let_def split: option.splits)
  ultimately show ?thesis by blast
qed

lemma preferences_exit_unlocked:
  "fst (sltOpenPreferencesDialog d e m) = Some m' \<Longrightarrow>
   \<not> opened (m_pActionPool m') UIActionIndex_M_Application_S_Preferences"
  by (auto simp add: sltOpenPreferencesDialog_def Let_def split: option.splits)

lemma settings_enters_locked:
  assumes "currentItem (m_pWidget m) = Some pItem"
    and "strCategory = [] \<or> hd strCategory = CHR ''#''"
  shows "\<exists>m1 uId strCategory' strControl'.
     lockedFor UIActionIndexST_M_Machine_S_Settings m1 \<and>
     (\<forall>d. SettingsDialogMachine_execute uId strCategory' strControl'
             \<in> set (snd (sltOpenMachineSettingsDialog d e strCategory strControl uID m)) \<and>
          fst (sltOpenMachineSettingsDialog d e strCategory strControl uID m) =
            map_option
              (\<lambda>m2. updateActionsAppearance e
                      (setOpened UIActionIndexST_M_Machine_S_Settings False m2))
              (settingsMachine_execute d uId strCategory' strControl' m1))"
proof -
  let ?m1 = "(updateActionsAppearance e (setOpened UIActionIndexST_M_Machine_S_Settings True m))
               \<lparr>m_fFirstMediumEnumerationHandled := True\<rparr>"
  let ?parts = "split ''%%'' [] strCategory"
  let ?fSplit = "strControl = [] \<and> length ?parts = 2"
  let ?cat = "if ?fSplit then ?parts ! 0 else strCategory"
  let ?ctl = "if ?fSplit then ?parts ! 1 else strControl"
  let ?uId = "case uID of None \<Rightarrow> id_item pItem | Some u \<Rightarrow> u"
  have "lockedFor UIActionIndexST_M_Machine_S_Settings ?m1"
    unfolding lockedFor_handled by (rule lockedFor_after_update) simp_all
  moreover have "\<forall>d. SettingsDialogMachine_execute ?uId ?cat ?ctl
             \<in> set (snd (sltOpenMachineSettingsDialog d e strCategory strControl uID m)) \<and>
          fst (sltOpenMachineSettingsDialog d e strCategory strControl uID m) =
            map_option
              (\<lambda>m2. updateActionsAppearance e
                      (setOpened UIActionIndexST_M_Machine_S_Settings False m2))
              (settingsMachine_execute d ?uId ?cat ?ctl ?m1)"
    using assms
    by (auto simp add: sltOpenMachineSettingsDialog_def Let_def split: option.splits)
  ultimately show ?thesis by blast
qed

lemma settings_exit_unlocked:
  "fst (sltOpenMachineSettingsDialog d e strCategory strControl uID m) = Some m' \<Longrightarrow>
   currentItem (m_pWidget m) \<noteq> None \<Longrightarrow>
   \<not> opened (m_pActionPool m') UIActionIndexST_M_Machine_S_Settings"
  by (auto simp add: sltOpenMachineSettingsDialog_def Let_def split: option.splits if_splits prod.splits)

lemma add_dialog_entered:
  assumes "(if VBOX_WS_MAC e then darwinResolveAlias e strFileName else strFileName) = []"
  shows "FileDialog_getOpenFileNames \<in> set (snd (sltOpenAddMachineDialog d e strFileName m)) \<and>
         fst (sltOpenAddMachineDialog d e strFileName m) =
           map_option
             (\<lambda>m2. updateActionsAppearance e (setOpened UIActionIndexST_M_Welcome_S_Add False m2))
             (snd (getOpenFileNames d
                (updateActionsAppearance e (setOpened UIActionIndexST_M_Welcome_S_Add True m))))"
  using assms
  by (auto simp add: sltOpenAddMachineDialog_def Let_def split: option.splits prod.splits)

lemma add_exit_unlocked:
  "fst (sltOpenAddMachineDialog d e strFileName m) = Some m' \<Longrightarrow>
   \<not> opened (m_pActionPool m') UIActionIndexST_M_Welcome_S_Add"
  by (auto simp add: sltOpenAddMachineDialog_def Let_def split: option.splits if_splits prod.splits)

text \<open>
  Claim C8, at the add-machine sub-flow. The slot is connected to three actions and marks
  one. When it opens the file dialog, the dialog is entered in a manager where the welcome
  add action is locked, while the add action of the group menu and that of the machine
  menu are marked and enabled exactly as they were before the slot ran. An add action of
  the group or machine menu that has triggered the slot is therefore neither marked opened
  nor disabled while the file dialog runs, where the claim has the action that opens a
  sub-flow marked, and disabled, until the sub-flow is left.
\<close>

theorem add_machine_dialog_leaves_other_triggers_unlocked:
  assumes "iActionIndex \<in> set addMachineActions"
    and "iActionIndex \<noteq> UIActionIndexST_M_Welcome_S_Add"
    and "(if VBOX_WS_MAC e then darwinResolveAlias e strFileName else strFileName) = []"
  shows "\<exists>m1. lockedFor UIActionIndexST_M_Welcome_S_Add m1 \<and>
           opened (m_pActionPool m1) iActionIndex = opened (m_pActionPool m) iActionIndex \<and>
           enabled (m_pActionPool m1) iActionIndex = enabled (m_pActionPool m) iActionIndex \<and>
           (\<forall>d. FileDialog_getOpenFileNames \<in> set (snd (sltOpenAddMachineDialog d e strFileName m)) \<and>
                fst (sltOpenAddMachineDialog d e strFileName m) =
                  map_option
                    (\<lambda>m2. updateActionsAppearance e
                            (setOpened UIActionIndexST_M_Welcome_S_Add False m2))
                    (snd (getOpenFileNames d m1)))"
proof -
  let ?m1 = "updateActionsAppearance e (setOpened UIActionIndexST_M_Welcome_S_Add True m)"
  have a: "iActionIndex = UIActionIndexST_M_Group_S_Add \<or> iActionIndex = UIActionIndexST_M_Machine_S_Add"
    using assms(1,2) by (simp add: addMachineActions_def)
  then have notin: "iActionIndex \<notin> set updatedActions"
    by (auto simp add: updatedActions_def)
  have "lockedFor UIActionIndexST_M_Welcome_S_Add ?m1"
    by (rule lockedFor_after_update) simp_all
  moreover have "opened (m_pActionPool ?m1) iActionIndex = opened (m_pActionPool m) iActionIndex"
    using assms(2) by simp
  moreover have "enabled (m_pActionPool ?m1) iActionIndex = enabled (m_pActionPool m) iActionIndex"
    using notin by (simp add: updateActionsAppearance_enabled_other)
  moreover have "\<forall>d. FileDialog_getOpenFileNames \<in> set (snd (sltOpenAddMachineDialog d e strFileName m)) \<and>
                fst (sltOpenAddMachineDialog d e strFileName m) =
                  map_option
                    (\<lambda>m2. updateActionsAppearance e
                            (setOpened UIActionIndexST_M_Welcome_S_Add False m2))
                    (snd (getOpenFileNames d ?m1))"
    using add_dialog_entered [OF assms(3)] by blast
  ultimately show ?thesis by blast
qed

theorem add_machine_dialog_leaves_other_triggers_unlocked_witness:
  "UIActionIndexST_M_Group_S_Add \<in> set addMachineActions \<and>
   (\<exists>m1. lockedFor UIActionIndexST_M_Welcome_S_Add m1 \<and>
      \<not> opened (m_pActionPool m1) UIActionIndexST_M_Group_S_Add \<and>
      enabled (m_pActionPool m1) UIActionIndexST_M_Group_S_Add \<and>
      (\<forall>d. FileDialog_getOpenFileNames
              \<in> set (snd (sltOpenAddMachineDialog d (collaborators [] True) [] (managerWith [] False))) \<and>
           fst (sltOpenAddMachineDialog d (collaborators [] True) [] (managerWith [] False)) =
             map_option
               (\<lambda>m2. updateActionsAppearance (collaborators [] True)
                       (setOpened UIActionIndexST_M_Welcome_S_Add False m2))
               (snd (getOpenFileNames d m1)))) \<and>
   snd (sltOpenAddMachineDialog
          (dialogsReturning\<lparr>getOpenFileNames :=
             (\<lambda>s. (if lockedFor UIActionIndexST_M_Group_S_Add s then [] else [''new.vbox''], Some s))\<rparr>)
          (collaborators [] True) [] (managerWith [] False)) =
     [FileDialog_getOpenFileNames, OpenMachine ''new.vbox'', FindMachine ''new.vbox'',
      RegisterMachine ''new.vbox''] \<and>
   snd (sltOpenAddMachineDialog
          (dialogsReturning\<lparr>getOpenFileNames :=
             (\<lambda>s. (if lockedFor UIActionIndexST_M_Welcome_S_Add s then [] else [''new.vbox''], Some s))\<rparr>)
          (collaborators [] True) [] (managerWith [] False)) =
     [FileDialog_getOpenFileNames]"
proof -
  let ?e = "collaborators [] True"
  let ?m0 = "managerWith [] False"
  let ?mL = "updateActionsAppearance ?e (setOpened UIActionIndexST_M_Welcome_S_Add True ?m0)"
  have mem: "UIActionIndexST_M_Group_S_Add \<in> set addMachineActions"
    by (simp add: addMachineActions_def)
  have nofile: "(if VBOX_WS_MAC ?e then darwinResolveAlias ?e [] else []) = []"
    by (simp add: collaborators_def)
  have init: "\<not> opened (m_pActionPool ?m0) UIActionIndexST_M_Group_S_Add"
    "enabled (m_pActionPool ?m0) UIActionIndexST_M_Group_S_Add"
    by (simp_all add: managerWith_def)
  have ex: "\<exists>m1. lockedFor UIActionIndexST_M_Welcome_S_Add m1 \<and>
      \<not> opened (m_pActionPool m1) UIActionIndexST_M_Group_S_Add \<and>
      enabled (m_pActionPool m1) UIActionIndexST_M_Group_S_Add \<and>
      (\<forall>d. FileDialog_getOpenFileNames \<in> set (snd (sltOpenAddMachineDialog d ?e [] ?m0)) \<and>
           fst (sltOpenAddMachineDialog d ?e [] ?m0) =
             map_option
               (\<lambda>m2. updateActionsAppearance ?e (setOpened UIActionIndexST_M_Welcome_S_Add False m2))
               (snd (getOpenFileNames d m1)))"
    using add_machine_dialog_leaves_other_triggers_unlocked
            [of UIActionIndexST_M_Group_S_Add ?e "[]" ?m0, OF mem _ nofile] init
    by simp
  have items: "currentItems (m_pWidget ?m0) = []"
    by (simp add: managerWith_def)
  have calls: "updateActionsAppearance_calls ?e (setOpened UIActionIndexST_M_Welcome_S_Add True ?m0) = []"
    "\<And>b. updateActionsAppearance_calls ?e (setOpened UIActionIndexST_M_Welcome_S_Add b ?mL) = []"
    using items by (simp_all add: updateActionsAppearance_calls_no_items)
  have lockW: "lockedFor UIActionIndexST_M_Welcome_S_Add ?mL"
    by (rule lockedFor_after_update) simp_all
  have lockG: "\<not> lockedFor UIActionIndexST_M_Group_S_Add ?mL"
    using init by (simp add: lockedFor_def)
  have env: "\<not> VBOX_WS_MAC ?e" "openMachine_isOk ?e ''new.vbox''" "findMachine_isNull ?e ''new.vbox''"
    by (simp_all add: collaborators_def)
  have obsG: "snd (sltOpenAddMachineDialog
          (dialogsReturning\<lparr>getOpenFileNames :=
             (\<lambda>s. (if lockedFor UIActionIndexST_M_Group_S_Add s then [] else [''new.vbox''], Some s))\<rparr>)
          ?e [] ?m0) =
     [FileDialog_getOpenFileNames, OpenMachine ''new.vbox'', FindMachine ''new.vbox'',
      RegisterMachine ''new.vbox'']"
    using calls lockG env by (simp add: sltOpenAddMachineDialog_def Let_def)
  have obsW: "snd (sltOpenAddMachineDialog
          (dialogsReturning\<lparr>getOpenFileNames :=
             (\<lambda>s. (if lockedFor UIActionIndexST_M_Welcome_S_Add s then [] else [''new.vbox''], Some s))\<rparr>)
          ?e [] ?m0) = [FileDialog_getOpenFileNames]"
    using calls lockW env by (simp add: sltOpenAddMachineDialog_def Let_def)
  show ?thesis
    using mem ex obsG obsW by (intro conjI)
qed

end
